theory Spec2Isabelle
  imports Complex_Main
begin

section \<open>Python values\<close>

text \<open>
  A Python \<^verbatim>\<open>str\<close> is a sequence of Unicode code points: \<^verbatim>\<open>len\<close> and the slice
  \<^verbatim>\<open>[:40]\<close> count code points, and the page's literals hold emoji. A string is
  therefore a list of code points; \<open>ascii\<close> embeds an ASCII literal.
\<close>

type_synonym str = "nat list"

definition ascii :: "string \<Rightarrow> str" where
  "ascii s = map of_char s"

text \<open>
  The values a field of a hit's \<^verbatim>\<open>_source\<close> holds once the JSON response is decoded:
  \<^verbatim>\<open>None\<close>, an \<^verbatim>\<open>int\<close>, a \<^verbatim>\<open>float\<close> (by its exact value; negative zero, which
  JSON can write, has no counterpart here) or a \<^verbatim>\<open>str\<close>. Booleans, arrays and objects
  are not modelled.
\<close>

datatype jvalue = JNull | JInt int | JFloat rat | JStr str

text \<open>What the script can raise, as values.\<close>

datatype error =
    EmbeddingError      \<comment> \<open>\<^verbatim>\<open>model.encode\<close> raised\<close>
  | BackendError        \<comment> \<open>\<^verbatim>\<open>client.search\<close> raised, or \<^verbatim>\<open>response["hits"]["hits"]\<close> did\<close>
  | KeyError str        \<comment> \<open>\<^verbatim>\<open>d[key]\<close> with the key absent\<close>
  | TypeError           \<comment> \<open>slicing or formatting a value of the wrong type\<close>
  | ValueError          \<comment> \<open>format code \<^verbatim>\<open>f\<close> applied to a \<^verbatim>\<open>str\<close>\<close>
  | AttributeError      \<comment> \<open>\<^verbatim>\<open>startswith\<close> on a number\<close>
  | OverflowError       \<comment> \<open>an \<^verbatim>\<open>int\<close> too large to convert to \<^verbatim>\<open>float\<close>\<close>

section \<open>Search requests\<close>

text \<open>
  The \<^verbatim>\<open>body\<close> dictionaries of the four search functions. A key that a dictionary
  literal of the source leaves out is \<open>None\<close> here (\<open>mm_type\<close>).
\<close>

type_synonym embedding = "rat list"

record multi_match =
  mm_query :: str
  mm_fields :: "str list"
  mm_type :: "str option"

record knn_spec =
  knn_field :: str
  knn_query_vector :: embedding
  knn_k :: int
  knn_num_candidates :: int

datatype retriever =
    Standard multi_match
  | Knn knn_spec
  | Rrf (rrf_retrievers: "retriever list") (rrf_rank_window_size: int)
  | TextSimilarityReranker (tsr_retriever: retriever) (tsr_field: str)
      (tsr_inference_id: str) (tsr_inference_text: str) (tsr_rank_window_size: int)

datatype clause =
    QueryClause multi_match       \<comment> \<open>\<^verbatim>\<open>"query": {"multi_match": ...}\<close>\<close>
  | KnnClause knn_spec            \<comment> \<open>\<^verbatim>\<open>"knn": ...\<close>\<close>
  | RetrieverClause retriever     \<comment> \<open>\<^verbatim>\<open>"retriever": ...\<close>\<close>

record body =
  b_size :: int
  b_clause :: clause
  b_source :: "str list"

record request =
  r_index :: str
  r_body :: body

definition INDEX_NAME :: str where
  "INDEX_NAME = ascii ''amazon_2020_bbq''"

definition bm25_body :: "str \<Rightarrow> int \<Rightarrow> body" where
  "bm25_body query k = \<lparr>
     b_size = k,
     b_clause = QueryClause \<lparr>
       mm_query = query,
       mm_fields = [ascii ''product_name^3'', ascii ''brand^2'', ascii ''category^1.5'',
                    ascii ''document_text''],
       mm_type = Some (ascii ''best_fields'')\<rparr>,
     b_source = [ascii ''product_name'', ascii ''brand'', ascii ''price'', ascii ''category'',
                 ascii ''image_url'']\<rparr>"

definition vector_body :: "embedding \<Rightarrow> int \<Rightarrow> body" where
  "vector_body query_vector k = \<lparr>
     b_size = k,
     b_clause = KnnClause \<lparr>
       knn_field = ascii ''embedding'',
       knn_query_vector = query_vector,
       knn_k = k,
       knn_num_candidates = 100\<rparr>,
     b_source = [ascii ''product_name'', ascii ''brand'', ascii ''price'', ascii ''category'',
                 ascii ''image_url'']\<rparr>"

definition hybrid_rrf_body :: "str \<Rightarrow> embedding \<Rightarrow> int \<Rightarrow> body" where
  "hybrid_rrf_body query query_vector k = \<lparr>
     b_size = k,
     b_clause = RetrieverClause (Rrf
       [Standard \<lparr>
          mm_query = query,
          mm_fields = [ascii ''product_name^3'', ascii ''brand^2'', ascii ''category^1.5'',
                       ascii ''document_text''],
          mm_type = None\<rparr>,
        Knn \<lparr>
          knn_field = ascii ''embedding'',
          knn_query_vector = query_vector,
          knn_k = 50,
          knn_num_candidates = 100\<rparr>]
       100),
     b_source = [ascii ''product_name'', ascii ''brand'', ascii ''price'', ascii ''category'',
                 ascii ''image_url'']\<rparr>"

definition full_pipeline_body :: "str \<Rightarrow> embedding \<Rightarrow> int \<Rightarrow> body" where
  "full_pipeline_body query query_vector k = \<lparr>
     b_size = k,
     b_clause = RetrieverClause (TextSimilarityReranker
       (Rrf
          [Standard \<lparr>
             mm_query = query,
             mm_fields = [ascii ''product_name^3'', ascii ''brand^2'', ascii ''category^1.5'',
                          ascii ''document_text''],
             mm_type = None\<rparr>,
           Knn \<lparr>
             knn_field = ascii ''embedding'',
             knn_query_vector = query_vector,
             knn_k = 50,
             knn_num_candidates = 100\<rparr>]
          100)
       (ascii ''document_text'')
       (ascii ''jina_reranker_v3'')
       query
       50),
     b_source = [ascii ''product_name'', ascii ''brand'', ascii ''price'', ascii ''category'',
                 ascii ''image_url'']\<rparr>"

text \<open>Reading a body: the sub-requests it holds, wherever they are nested.\<close>

fun standard_parts :: "retriever \<Rightarrow> multi_match list" where
  "standard_parts (Standard mm) = [mm]"
| "standard_parts (Knn kn) = []"
| "standard_parts (Rrf rs w) = concat (map standard_parts rs)"
| "standard_parts (TextSimilarityReranker r f i t w) = standard_parts r"

fun knn_parts :: "retriever \<Rightarrow> knn_spec list" where
  "knn_parts (Standard mm) = []"
| "knn_parts (Knn kn) = [kn]"
| "knn_parts (Rrf rs w) = concat (map knn_parts rs)"
| "knn_parts (TextSimilarityReranker r f i t w) = knn_parts r"

fun lexical_requests :: "clause \<Rightarrow> multi_match list" where
  "lexical_requests (QueryClause mm) = [mm]"
| "lexical_requests (KnnClause kn) = []"
| "lexical_requests (RetrieverClause r) = standard_parts r"

fun knn_requests :: "clause \<Rightarrow> knn_spec list" where
  "knn_requests (QueryClause mm) = []"
| "knn_requests (KnnClause kn) = [kn]"
| "knn_requests (RetrieverClause r) = knn_parts r"

section \<open>The external collaborators and the state of a run\<close>

text \<open>
  A hit of the response: its \<^verbatim>\<open>_source\<close> dictionary and its \<^verbatim>\<open>_score\<close>.
\<close>

record hit =
  h_source :: "str \<rightharpoonup> jvalue"
  h_score :: jvalue

text \<open>
  The embedding model, the search client, the clock and the runtime are parameters of the
  model:
  \<^item> \<open>encode q\<close> is \<^verbatim>\<open>model.encode(q).tolist()\<close>, \<open>None\<close> when the call raises;
  \<^item> \<open>search r\<close> is \<^verbatim>\<open>client.search(index=..., body=...)["hits"]["hits"]\<close>, \<open>None\<close> when
    the call or either subscript raises;
  \<^item> \<open>now n\<close> is what the \<open>n\<close>-th call of \<^verbatim>\<open>time.time()\<close> returns;
  \<^item> \<open>image_ok url\<close> says that \<^verbatim>\<open>st.image(url, width=120)\<close> returns without raising;
  \<^item> \<open>float_repr x\<close> is \<^verbatim>\<open>str(x)\<close> for a float \<open>x\<close>;
  \<^item> \<open>float_sub a b\<close> and \<open>float_mul a b\<close> are the doubles \<^verbatim>\<open>a - b\<close> and \<^verbatim>\<open>a * b\<close>
    that the runtime computes for doubles \<open>a\<close> and \<open>b\<close>, each by its exact value: the
    rounding of the arithmetic is the runtime's.
\<close>

record env =
  encode :: "str \<Rightarrow> embedding option"
  search :: "request \<Rightarrow> hit list option"
  now :: "nat \<Rightarrow> rat"
  image_ok :: "str \<Rightarrow> bool"
  float_repr :: "rat \<Rightarrow> str"
  float_sub :: "rat \<Rightarrow> rat \<Rightarrow> rat"
  float_mul :: "rat \<Rightarrow> rat \<Rightarrow> rat"

datatype call = Encode str | Search request

text \<open>What the page shows: each element with the container it was written to.\<close>

datatype widget =
    Title str
  | Header str
  | Markdown str
  | Caption str
  | Metric str str
  | Image str int
  | Write str
  | Success str

record world =
  calls :: "call list"              \<comment> \<open>calls to the two services so far, oldest first\<close>
  page :: "(str \<times> widget) list"     \<comment> \<open>elements rendered so far, oldest first\<close>
  ticks :: nat                      \<comment> \<open>readings of the clock so far\<close>

text \<open>
  A statement of the script takes the state of the run and returns either the exception
  it raised or its value, with the state at that point: what was called and rendered
  before an exception stays called and rendered.
\<close>

type_synonym 'a io = "world \<Rightarrow> (error + 'a) \<times> world"

definition io_return :: "'a \<Rightarrow> 'a io" where
  "io_return x w = (Inr x, w)"

definition io_raise :: "error \<Rightarrow> 'a io" where
  "io_raise e w = (Inl e, w)"

definition io_bind :: "'a io \<Rightarrow> ('a \<Rightarrow> 'b io) \<Rightarrow> 'b io" where
  "io_bind m f w = (case m w of (Inl e, w') \<Rightarrow> (Inl e, w') | (Inr x, w') \<Rightarrow> f x w')"

definition model_encode :: "env \<Rightarrow> str \<Rightarrow> embedding io" where
  "model_encode env query w =
     (case encode env query of None \<Rightarrow> Inl EmbeddingError | Some v \<Rightarrow> Inr v,
      w\<lparr>calls := calls w @ [Encode query]\<rparr>)"

definition client_search :: "env \<Rightarrow> request \<Rightarrow> hit list io" where
  "client_search env req w =
     (case search env req of None \<Rightarrow> Inl BackendError | Some hs \<Rightarrow> Inr hs,
      w\<lparr>calls := calls w @ [Search req]\<rparr>)"

definition time_time :: "env \<Rightarrow> rat io" where
  "time_time env w = (Inr (now env (ticks w)), w\<lparr>ticks := Suc (ticks w)\<rparr>)"

definition st :: "str \<Rightarrow> widget \<Rightarrow> unit io" where
  "st container x w = (Inr (), w\<lparr>page := page w @ [(container, x)]\<rparr>)"

section \<open>The search functions\<close>

definition bm25_search :: "env \<Rightarrow> str \<Rightarrow> int \<Rightarrow> hit list io" where
  "bm25_search env query k =
     client_search env \<lparr>r_index = INDEX_NAME, r_body = bm25_body query k\<rparr>"

definition vector_search :: "env \<Rightarrow> str \<Rightarrow> int \<Rightarrow> hit list io" where
  "vector_search env query k =
     io_bind (model_encode env query) (\<lambda>query_vector.
       client_search env \<lparr>r_index = INDEX_NAME, r_body = vector_body query_vector k\<rparr>)"

definition hybrid_rrf_search :: "env \<Rightarrow> str \<Rightarrow> int \<Rightarrow> hit list io" where
  "hybrid_rrf_search env query k =
     io_bind (model_encode env query) (\<lambda>query_vector.
       client_search env \<lparr>r_index = INDEX_NAME, r_body = hybrid_rrf_body query query_vector k\<rparr>)"

definition full_pipeline_search :: "env \<Rightarrow> str \<Rightarrow> int \<Rightarrow> hit list io" where
  "full_pipeline_search env query k =
     io_bind (model_encode env query) (\<lambda>query_vector.
       client_search env \<lparr>r_index = INDEX_NAME, r_body = full_pipeline_body query query_vector k\<rparr>)"

text \<open>The dictionary \<^verbatim>\<open>funcs\<close> of the single-method mode, in the order it is written.\<close>

definition funcs :: "(str \<times> (env \<Rightarrow> str \<Rightarrow> int \<Rightarrow> hit list io)) list" where
  "funcs = [
     (ascii ''Full Pipeline'', full_pipeline_search),
     (ascii ''Hybrid RRF'', hybrid_rrf_search),
     (ascii ''Vector Semantic'', vector_search),
     (ascii ''BM25 Keyword'', bm25_search)]"

section \<open>Formatting\<close>

text \<open>\<^verbatim>\<open>str(n)\<close> for an \<^verbatim>\<open>int\<close>: its decimal digits, most significant first.\<close>

fun digits_of :: "nat \<Rightarrow> str" where
  "digits_of n = (if n < 10 then [48 + n] else digits_of (n div 10) @ [48 + n mod 10])"

declare digits_of.simps [simp del]

definition str_of_int :: "int \<Rightarrow> str" where
  "str_of_int n = (if n < 0 then [45] @ digits_of (nat (- n)) else digits_of (nat n))"

text \<open>
  \<^verbatim>\<open>float(n)\<close> for an \<^verbatim>\<open>int\<close>, which the format code \<^verbatim>\<open>f\<close> applies first: exact up to
  53 bits, rounded to the nearest double (ties to even) above, \<^verbatim>\<open>OverflowError\<close> beyond
  the largest double.
\<close>

fun bit_length :: "nat \<Rightarrow> nat" where
  "bit_length n = (if n = 0 then 0 else Suc (bit_length (n div 2)))"

declare bit_length.simps [simp del]

definition float_of_int :: "int \<Rightarrow> error + rat" where
  "float_of_int n =
     (let a = nat \<bar>n\<bar>; b = bit_length a in
      if b \<le> 53 then Inr (of_int n)
      else
        let e = b - 53; q = a div 2 ^ e; r = a mod 2 ^ e; half = 2 ^ (e - 1);
            q' = (if r < half then q else if half < r then q + 1
                  else if even q then q else q + 1);
            v = q' * 2 ^ e
        in if 2 ^ 1024 \<le> v then Inl OverflowError
           else Inr (if n < 0 then - of_nat v else of_nat v))"

text \<open>
  \<^verbatim>\<open>format(x, ".pf")\<close> for a float of exact value \<open>x\<close>: the decimal expansion of \<open>x\<close>
  correctly rounded to \<open>p\<close> places, ties to even.
\<close>

definition round_half_even :: "rat \<Rightarrow> int" where
  "round_half_even x =
     (let f = \<lfloor>x\<rfloor>; d = x - of_int f in
      if d < 1 / 2 then f else if 1 / 2 < d then f + 1 else if even f then f else f + 1)"

definition format_f :: "nat \<Rightarrow> rat \<Rightarrow> str" where
  "format_f p x =
     (let n = nat (round_half_even (\<bar>x\<bar> * 10 ^ p));
          whole = digits_of (n div 10 ^ p);
          fraction = digits_of (n mod 10 ^ p)
      in (if x < 0 then [45] else []) @ whole @
         (if p = 0 then [] else [46] @ replicate (p - length fraction) 48 @ fraction))"

text \<open>The replacement field \<^verbatim>\<open>{v:.pf}\<close> of an f-string, for a decoded JSON value.\<close>

fun py_format_f :: "nat \<Rightarrow> jvalue \<Rightarrow> error + str" where
  "py_format_f p JNull = Inl TypeError"
| "py_format_f p (JStr s) = Inl ValueError"
| "py_format_f p (JFloat x) = Inr (format_f p x)"
| "py_format_f p (JInt n) =
     (case float_of_int n of Inl e \<Rightarrow> Inl e | Inr x \<Rightarrow> Inr (format_f p x))"

text \<open>The replacement field \<^verbatim>\<open>{v}\<close>: \<^verbatim>\<open>str(v)\<close>.\<close>

fun py_str :: "env \<Rightarrow> jvalue \<Rightarrow> str" where
  "py_str env JNull = ascii ''None''"
| "py_str env (JInt n) = str_of_int n"
| "py_str env (JFloat x) = float_repr env x"
| "py_str env (JStr s) = s"

text \<open>The slice \<^verbatim>\<open>v[:n]\<close>: only a \<^verbatim>\<open>str\<close> is subscriptable.\<close>

fun slice_to :: "nat \<Rightarrow> jvalue \<Rightarrow> error + str" where
  "slice_to n (JStr s) = Inr (take n s)"
| "slice_to n v = Inl TypeError"

text \<open>Truth value of a decoded JSON value, as \<^verbatim>\<open>if v\<close> and \<^verbatim>\<open>and\<close> test it.\<close>

fun truthy :: "jvalue \<Rightarrow> bool" where
  "truthy JNull = False"
| "truthy (JInt n) = (n \<noteq> 0)"
| "truthy (JFloat x) = (x \<noteq> 0)"
| "truthy (JStr s) = (s \<noteq> [])"

text \<open>\<^verbatim>\<open>d.get(key, default)\<close> and \<^verbatim>\<open>d[key]\<close>.\<close>

definition dict_get :: "(str \<rightharpoonup> jvalue) \<Rightarrow> str \<Rightarrow> jvalue \<Rightarrow> jvalue" where
  "dict_get d key dflt = (case d key of None \<Rightarrow> dflt | Some v \<Rightarrow> v)"

definition dict_item :: "(str \<rightharpoonup> 'a) \<Rightarrow> str \<Rightarrow> error + 'a" where
  "dict_item d key = (case d key of None \<Rightarrow> Inl (KeyError key) | Some v \<Rightarrow> Inr v)"

definition io_of :: "error + 'a \<Rightarrow> 'a io" where
  "io_of r w = (r, w)"

section \<open>Rendering\<close>

text \<open>
  The price of a hit as both modes print it: \<^verbatim>\<open>f"{s.get('price', 0):.2f}"\<close>.
\<close>

definition price_text :: "(str \<rightharpoonup> jvalue) \<Rightarrow> error + str" where
  "price_text s = py_format_f 2 (dict_get s (ascii ''price'') (JInt 0))"

text \<open>
  \<^verbatim>\<open>for i, hit in enumerate(hits, 1)\<close>: the body runs on each hit in order, and the first
  exception ends the loop.
\<close>

fun for_hits :: "(int \<Rightarrow> hit \<Rightarrow> unit io) \<Rightarrow> int \<Rightarrow> hit list \<Rightarrow> unit io" where
  "for_hits f i [] = io_return ()"
| "for_hits f i (h # hs) = io_bind (f i h) (\<lambda>_. for_hits f (i + 1) hs)"

text \<open>The loop body of the comparison mode: a truncated name and the price.\<close>

definition compact_hit :: "str \<Rightarrow> int \<Rightarrow> hit \<Rightarrow> unit io" where
  "compact_hit col i hit =
     (let s = h_source hit in
      io_bind (io_of (dict_item s (ascii ''product_name''))) (\<lambda>name.
      io_bind (io_of (slice_to 40 name)) (\<lambda>short.
      io_bind (st col (Markdown (ascii ''**'' @ str_of_int i @ ascii ''.** '' @ short
                                  @ ascii ''...''))) (\<lambda>_.
      io_bind (io_of (price_text s)) (\<lambda>price.
      st col (Caption (ascii ''$'' @ price)))))))"

text \<open>
  One \<^verbatim>\<open>with colN:\<close> block of the comparison mode. The four blocks of the source are the
  same statements with another column, title and search function.
\<close>

definition column_block ::
  "env \<Rightarrow> str \<Rightarrow> str \<Rightarrow> (env \<Rightarrow> str \<Rightarrow> int \<Rightarrow> hit list io) \<Rightarrow> str \<Rightarrow> int \<Rightarrow> unit io" where
  "column_block env col title search_fn query num_results =
     io_bind (st col (Markdown title)) (\<lambda>_.
     io_bind (time_time env) (\<lambda>start.
     io_bind (search_fn env query num_results) (\<lambda>res.
     io_bind (time_time env) (\<lambda>t.
     io_bind (st col (Metric (ascii ''Latency'')
                (format_f 0 (float_mul env (float_sub env t start) 1000) @ ascii ''ms''))) (\<lambda>_.
     for_hits (compact_hit col) 1 res)))))"

definition comparison_block :: "env \<Rightarrow> str \<Rightarrow> int \<Rightarrow> unit io" where
  "comparison_block env query num_results =
     io_bind (st (ascii ''main'')
       (Markdown (ascii ''### '' @ [0x1F52C] @ ascii '' Method Comparison''))) (\<lambda>_.
     io_bind (column_block env (ascii ''col1'')
       (ascii ''**'' @ [0x1F4DD] @ ascii '' BM25**'') bm25_search query num_results) (\<lambda>_.
     io_bind (column_block env (ascii ''col2'')
       (ascii ''**'' @ [0x1F9E0] @ ascii '' Vector**'') vector_search query num_results) (\<lambda>_.
     io_bind (column_block env (ascii ''col3'')
       (ascii ''**'' @ [0x1F500] @ ascii '' Hybrid**'') hybrid_rrf_search query num_results) (\<lambda>_.
     io_bind (column_block env (ascii ''col4'')
       (ascii ''**'' @ [0x1F680] @ ascii '' Pipeline**'') full_pipeline_search query
       num_results) (\<lambda>_.
     io_bind (st (ascii ''main'') (Markdown (ascii ''---''))) (\<lambda>_.
     st (ascii ''main'')
       (Success ([0x1F4A1] @ ascii '' Full Pipeline reranks for maximum relevance!''))))))))"

text \<open>The image cell of a result card; the bare \<^verbatim>\<open>except\<close> catches whatever \<^verbatim>\<open>st.image\<close> raises.\<close>

definition image_cell :: "env \<Rightarrow> jvalue \<Rightarrow> unit io" where
  "image_cell env img =
     (if truthy img then
        (case img of
           JStr url \<Rightarrow>
             if take 4 url = ascii ''http'' then
               (if image_ok env url then st (ascii ''col_img'') (Image url 120)
                else st (ascii ''col_img'') (Write [0x1F5BC, 0xFE0F]))
             else st (ascii ''col_img'') (Write [0x1F5BC, 0xFE0F])
         | _ \<Rightarrow> io_raise AttributeError)
      else st (ascii ''col_img'') (Write [0x1F5BC, 0xFE0F]))"

text \<open>The texts of the brand and category cells of a result card.\<close>

definition brand_text :: "env \<Rightarrow> (str \<rightharpoonup> jvalue) \<Rightarrow> str" where
  "brand_text env s =
     py_str env
       (if dict_get s (ascii ''brand'') JNull \<noteq> JStr (ascii ''nan'')
        then dict_get s (ascii ''brand'') (JStr (ascii ''N/A''))
        else JStr (ascii ''N/A''))"

definition category_text :: "(str \<rightharpoonup> jvalue) \<Rightarrow> error + str" where
  "category_text s =
     (if dict_get s (ascii ''category'') JNull \<noteq> JStr (ascii ''nan'')
      then slice_to 40 (dict_get s (ascii ''category'') (JStr (ascii ''N/A'')))
      else Inr (ascii ''N/A''))"

text \<open>The loop body of the single-method mode: one result card.\<close>

definition detailed_hit :: "env \<Rightarrow> int \<Rightarrow> hit \<Rightarrow> unit io" where
  "detailed_hit env i hit =
     (let s = h_source hit in
      io_bind (image_cell env (dict_get s (ascii ''image_url'') (JStr []))) (\<lambda>_.
      io_bind (io_of (dict_item s (ascii ''product_name''))) (\<lambda>name.
      io_bind (st (ascii ''col_info'')
        (Markdown (ascii ''### '' @ str_of_int i @ ascii ''. '' @ py_str env name))) (\<lambda>_.
      io_bind (st (ascii ''d1'') (Markdown (ascii ''**Brand:** '' @ brand_text env s))) (\<lambda>_.
      io_bind (io_of (price_text s)) (\<lambda>price.
      io_bind (st (ascii ''d2'') (Markdown (ascii ''**Price:** $'' @ price))) (\<lambda>_.
      io_bind (io_of (category_text s)) (\<lambda>category.
      io_bind (st (ascii ''d3'') (Markdown (ascii ''**Category:** '' @ category))) (\<lambda>_.
      io_bind (io_of (py_format_f 3 (h_score hit))) (\<lambda>score.
      io_bind (st (ascii ''d4'') (Markdown (ascii ''**Score:** '' @ score))) (\<lambda>_.
      st (ascii ''main'') (Markdown (ascii ''---'')))))))))))))"

definition single_block :: "env \<Rightarrow> str \<Rightarrow> str \<Rightarrow> int \<Rightarrow> unit io" where
  "single_block env search_method query num_results =
     io_bind (time_time env) (\<lambda>start.
     io_bind (io_of (dict_item (map_of funcs) search_method)) (\<lambda>search_fn.
     io_bind (search_fn env query num_results) (\<lambda>results.
     io_bind (time_time env) (\<lambda>t.
     io_bind (st (ascii ''col1'') (Metric ([0x23F1, 0xFE0F] @ ascii '' Latency'')
                (format_f 0 (float_mul env (float_sub env t start) 1000) @ ascii ''ms''))) (\<lambda>_.
     io_bind (st (ascii ''col2'') (Metric ([0x1F4CA] @ ascii '' Results'')
                (str_of_int (int (length results))))) (\<lambda>_.
     io_bind (st (ascii ''col3'') (Metric ([0x1F527] @ ascii '' Method'') search_method)) (\<lambda>_.
     io_bind (st (ascii ''col4'') (Metric ([0x1F3AF] @ ascii '' Storage'')
                (ascii ''BBQ int8''))) (\<lambda>_.
     io_bind (st (ascii ''main'') (Markdown (ascii ''---''))) (\<lambda>_.
     for_hits (detailed_hit env) 1 results)))))))))"

section \<open>The page\<close>

text \<open>
  One run of the script from \<^verbatim>\<open># UI\<close> on, for the values its input widgets return: the
  checkbox, the select box (read only when the checkbox is off), the slider and the text
  input. The input widgets themselves and the spinner are not recorded in \<open>page\<close>.
\<close>

record inputs =
  comparison_mode :: bool
  selected_method :: str
  num_results :: int
  query :: str

text \<open>The slider \<^verbatim>\<open>st.sidebar.slider("Results", 3, 12, 5)\<close> returns a value in its range.\<close>

definition slider_range :: "int \<Rightarrow> bool" where
  "slider_range k = (3 \<le> k \<and> k \<le> 12)"

definition page_header :: "unit io" where
  "page_header =
     io_bind (st (ascii ''main'') (Title ([0x1F3A8] @ ascii '' Amazon Kids Product Search''))) (\<lambda>_.
     io_bind (st (ascii ''main'') (Markdown
       (ascii ''### Powered by BBQ Quantization + Hybrid RRF + JinaAI Reranker''))) (\<lambda>_.
     io_bind (st (ascii ''main'') (Markdown (ascii ''---''))) (\<lambda>_.
     io_bind (st (ascii ''sidebar'') (Header ([0x2699, 0xFE0F] @ ascii '' Configuration''))) (\<lambda>_.
     io_bind (st (ascii ''sidebar'') (Markdown (ascii ''---''))) (\<lambda>_.
     st (ascii ''sidebar'') (Markdown (ascii ''**'' @ [0x1F4A1] @ ascii '' Try these:**'')))))))"

definition sidebar_footer :: "unit io" where
  "sidebar_footer =
     io_bind (st (ascii ''sidebar'') (Markdown (ascii ''---''))) (\<lambda>_.
     io_bind (st (ascii ''sidebar'') (Markdown (ascii ''### '' @ [0x1F4CA] @ ascii '' Architecture''))) (\<lambda>_.
     io_bind (st (ascii ''sidebar'') (Markdown
       ([10] @ ascii ''**3-Stage Pipeline:**'' @ [10]
        @ ascii ''1. Hybrid RRF (BM25 + Vector)'' @ [10]
        @ ascii ''2. JinaAI Reranker v3'' @ [10]
        @ ascii ''3. Final Results'' @ [10] @ [10]
        @ ascii ''**Features:**'' @ [10]
        @ ascii ''- BBQ int8_hnsw (75% savings)'' @ [10]
        @ ascii ''- Semantic + keyword fusion'' @ [10]
        @ ascii ''- Cross-encoder reranking'' @ [10]))) (\<lambda>_.
     io_bind (st (ascii ''sidebar'') (Markdown (ascii ''---''))) (\<lambda>_.
     st (ascii ''sidebar'') (Markdown (ascii ''**Elastic Blogathon 2026**''))))))"

definition run_page :: "env \<Rightarrow> inputs \<Rightarrow> unit io" where
  "run_page env inp =
     io_bind page_header (\<lambda>_.
     io_bind
       (if comparison_mode inp \<and> query inp \<noteq> [] then
          comparison_block env (query inp) (num_results inp)
        else if \<not> comparison_mode inp \<and> query inp \<noteq> [] \<and> selected_method inp \<noteq> [] then
          single_block env (selected_method inp) (query inp) (num_results inp)
        else io_return ())
       (\<lambda>_. sidebar_footer))"

text \<open>
  The windows of the fused and reranked requests:
  \<^verbatim>\<open>body["retriever"]["rrf"]["rank_window_size"]\<close>, also below a reranker, and
  \<^verbatim>\<open>body["retriever"]["text_similarity_reranker"]["rank_window_size"]\<close>.
\<close>

fun rrf_window :: "retriever \<Rightarrow> int option" where
  "rrf_window (Rrf rs w) = Some w"
| "rrf_window (TextSimilarityReranker r f i t w) = rrf_window r"
| "rrf_window (Standard mm) = None"
| "rrf_window (Knn kn) = None"

fun fusion_window :: "clause \<Rightarrow> int option" where
  "fusion_window (RetrieverClause r) = rrf_window r"
| "fusion_window (QueryClause mm) = None"
| "fusion_window (KnnClause kn) = None"

fun rerank_window :: "clause \<Rightarrow> int option" where
  "rerank_window (RetrieverClause (TextSimilarityReranker r f i t w)) = Some w"
| "rerank_window c = None"

section \<open>Reading the lexical sub-request\<close>

text \<open>
  The backend's notation for a field of \<^verbatim>\<open>multi_match\<close>: \<^verbatim>\<open>name^boost\<close>, the boost a
  decimal numeral, and a field written without a caret has boost 1. Where the request has
  no \<^verbatim>\<open>"type"\<close>, the backend combines the fields as \<^verbatim>\<open>best_fields\<close>: the score of a
  document is the score of its best-matching field.
\<close>

definition field_name :: "str \<Rightarrow> str" where
  "field_name f = takeWhile (\<lambda>c. c \<noteq> 94) f"

definition is_digit :: "nat \<Rightarrow> bool" where
  "is_digit c = (48 \<le> c \<and> c \<le> 57)"

definition parse_digits :: "str \<Rightarrow> nat option" where
  "parse_digits s =
     (if s \<noteq> [] \<and> list_all is_digit s then Some (foldl (\<lambda>a c. 10 * a + (c - 48)) 0 s)
      else None)"

definition parse_decimal :: "str \<Rightarrow> rat option" where
  "parse_decimal s =
     (case parse_digits (takeWhile (\<lambda>c. c \<noteq> 46) s) of
        None \<Rightarrow> None
      | Some a \<Rightarrow>
          (case dropWhile (\<lambda>c. c \<noteq> 46) s of
             [] \<Rightarrow> Some (of_nat a)
           | dot # decimals \<Rightarrow>
               (case parse_digits decimals of
                  None \<Rightarrow> None
                | Some b \<Rightarrow> Some (of_nat a + of_nat b / 10 ^ length decimals))))"

definition field_boost :: "str \<Rightarrow> rat option" where
  "field_boost f =
     (case dropWhile (\<lambda>c. c \<noteq> 94) f of [] \<Rightarrow> Some 1 | caret # b \<Rightarrow> parse_decimal b)"

definition multi_match_type :: "multi_match \<Rightarrow> str" where
  "multi_match_type mm = (case mm_type mm of None \<Rightarrow> ascii ''best_fields'' | Some t \<Rightarrow> t)"

section \<open>A backend that honours the requested size, and sample data\<close>

text \<open>
  The search service returns at most \<^verbatim>\<open>size\<close> hits for a request. The script relies on
  it and never truncates a response itself.
\<close>

definition honours_size :: "env \<Rightarrow> bool" where
  "honours_size env =
     (\<forall>req hits. search env req = Some hits \<longrightarrow> int (length hits) \<le> b_size (r_body req))"

definition sample_hits :: "hit list" where
  "sample_hits = [
     \<lparr>h_source = [
        ascii ''product_name'' \<mapsto> JStr (ascii ''LEGO Star Wars X-Wing''),
        ascii ''brand'' \<mapsto> JStr (ascii ''LEGO''),
        ascii ''price'' \<mapsto> JFloat (39 / 2),
        ascii ''category'' \<mapsto> JStr (ascii ''Toys & Games''),
        ascii ''image_url'' \<mapsto> JStr (ascii ''https://example.com/1.jpg'')],
      h_score = JFloat (3 / 2)\<rparr>,
     \<lparr>h_source = [ascii ''product_name'' \<mapsto> JStr (ascii ''Wooden Puzzle'')],
      h_score = JFloat 1\<rparr>,
     \<lparr>h_source = [
        ascii ''product_name'' \<mapsto> JStr (ascii ''Plush Bear''),
        ascii ''brand'' \<mapsto> JStr (ascii ''nan''),
        ascii ''price'' \<mapsto> JInt 7,
        ascii ''category'' \<mapsto> JStr (ascii ''nan'')],
      h_score = JFloat (3 / 4)\<rparr>,
     \<lparr>h_source = [
        ascii ''product_name'' \<mapsto> JStr (ascii ''Race Track''),
        ascii ''brand'' \<mapsto> JStr (ascii ''Hot Wheels''),
        ascii ''price'' \<mapsto> JFloat (25 / 4)],
      h_score = JFloat (1 / 2)\<rparr>]"

definition sample_backend :: "request \<Rightarrow> hit list option" where
  "sample_backend req =
     (if b_size (r_body req) < 0 then None
      else Some (take (nat (b_size (r_body req))) sample_hits))"

text \<open>
  A sample of the services. Its clock ticks in eighths of a second, on which the double
  arithmetic of the latency is exact, and none of its hits holds a float where \<^verbatim>\<open>str\<close>
  is applied.
\<close>

definition sample_env :: env where
  "sample_env = \<lparr>
     encode = (\<lambda>q. Some [1 / 2, - 1 / 4, 0]),
     search = sample_backend,
     now = (\<lambda>n. of_nat n / 8),
     image_ok = (\<lambda>url. True),
     float_repr = (\<lambda>x. []),
     float_sub = (\<lambda>a b. a - b),
     float_mul = (\<lambda>a b. a * b)\<rparr>"

text \<open>The same services with the backend failing on every plain knn request.\<close>

definition vector_outage_env :: env where
  "vector_outage_env = sample_env\<lparr>
     search := (\<lambda>req. case b_clause (r_body req) of
                         KnnClause kn \<Rightarrow> None
                       | _ \<Rightarrow> sample_backend req)\<rparr>"

definition fresh :: world where
  "fresh = \<lparr>calls = [], page = [], ticks = 0\<rparr>"

text \<open>
  What a search function returns and which calls it makes do not depend on the state it
  runs in; \<open>reply\<close> and \<open>trace\<close> read them off its run from the fresh state. \<open>prints\<close> is
  the outcome of printing hits into a column of the comparison mode, and
  \<open>column_outcome\<close> the outcome of a whole column: the failure of its search, or else of
  its printing.
\<close>

definition reply ::
  "(env \<Rightarrow> str \<Rightarrow> int \<Rightarrow> hit list io) \<Rightarrow> env \<Rightarrow> str \<Rightarrow> int \<Rightarrow> error + hit list" where
  "reply f env q k = fst (f env q k fresh)"

definition trace ::
  "(env \<Rightarrow> str \<Rightarrow> int \<Rightarrow> hit list io) \<Rightarrow> env \<Rightarrow> str \<Rightarrow> int \<Rightarrow> call list" where
  "trace f env q k = calls (snd (f env q k fresh))"

definition prints :: "str \<Rightarrow> hit list \<Rightarrow> error + unit" where
  "prints col hs = fst (for_hits (compact_hit col) 1 hs fresh)"

definition column_outcome ::
  "(env \<Rightarrow> str \<Rightarrow> int \<Rightarrow> hit list io) \<Rightarrow> str \<Rightarrow> env \<Rightarrow> str \<Rightarrow> int \<Rightarrow> error + unit" where
  "column_outcome f col env q k =
     (case reply f env q k of Inl e \<Rightarrow> Inl e | Inr hs \<Rightarrow> prints col hs)"


text \<open>
  The result counts of the search requests among some calls, and the statements that
  send no request with another result count than \<open>k\<close>, from whatever state they start.
\<close>

fun request_sizes :: "call list \<Rightarrow> int list" where
  "request_sizes [] = []"
| "request_sizes (Encode q # cs) = request_sizes cs"
| "request_sizes (Search r # cs) = b_size (r_body r) # request_sizes cs"

definition sends_only :: "int \<Rightarrow> 'a io \<Rightarrow> bool" where
  "sends_only k m =
     (\<forall>w. \<exists>cs. calls (snd (m w)) = calls w @ cs \<and> list_all (\<lambda>s. s = k) (request_sizes cs))"

text \<open>A hit that the comparison mode can print: a \<^verbatim>\<open>str\<close> name and a price that formats.\<close>

definition compact_ok :: "hit \<Rightarrow> bool" where
  "compact_ok h =
     ((case h_source h (ascii ''product_name'') of Some (JStr n) \<Rightarrow> True | _ \<Rightarrow> False)
      \<and> (case price_text (h_source h) of Inr t \<Rightarrow> True | Inl e \<Rightarrow> False))"

text \<open>Every boost is given, and each is strictly smaller than the one before it.\<close>

fun strictly_decreasing :: "rat option list \<Rightarrow> bool" where
  "strictly_decreasing [] = True"
| "strictly_decreasing [Some a] = True"
| "strictly_decreasing (Some a # Some b # rest) = (b < a \<and> strictly_decreasing (Some b # rest))"
| "strictly_decreasing bs = False"

text \<open>
  The sizing that the specification describes for the candidate pool of the vector
  strategy, in its own words: ten candidates for each requested neighbour, capped at a
  ceiling. It is stated here to be compared with what \<open>vector_body\<close> requests.
\<close>

definition ten_times_capped :: "int \<Rightarrow> int \<Rightarrow> int" where
  "ten_times_capped cap k = min (10 * k) cap"

section \<open>Properties of the requests\<close>

text \<open>
  C10. In the requests of \<^verbatim>\<open>hybrid_rrf_search\<close> and \<^verbatim>\<open>full_pipeline_search\<close> the only
  knn sub-retriever asks for \<^verbatim>\<open>k = 50\<close> neighbours out of \<^verbatim>\<open>num_candidates = 100\<close>,
  whatever result count the caller passes; two bodies built for different result counts
  differ in the outer \<^verbatim>\<open>size\<close> and nowhere else.
\<close>

theorem inner_knn_is_constant:
  "knn_requests (b_clause (hybrid_rrf_body q v k)) =
     [\<lparr>knn_field = ascii ''embedding'', knn_query_vector = v, knn_k = 50,
       knn_num_candidates = 100\<rparr>]
   \<and> knn_requests (b_clause (full_pipeline_body q v k)) =
     [\<lparr>knn_field = ascii ''embedding'', knn_query_vector = v, knn_k = 50,
       knn_num_candidates = 100\<rparr>]
   \<and> b_size (hybrid_rrf_body q v k) = k
   \<and> b_size (full_pipeline_body q v k) = k
   \<and> hybrid_rrf_body q v k = (hybrid_rrf_body q v k')\<lparr>b_size := k\<rparr>
   \<and> full_pipeline_body q v k = (full_pipeline_body q v k')\<lparr>b_size := k\<rparr>"
  by (simp add: hybrid_rrf_body_def full_pipeline_body_def)

lemma slider_range_small: "slider_range k \<Longrightarrow> 0 < k \<and> k < 100"
  by (simp add: slider_range_def)

text \<open>
  C4. For every result count up to 100, which covers the slider's range 3 to 12, the
  window of the rrf retriever in the hybrid request is at least the result count; in the
  full pipeline request the window of the reranker is at most the window of the rrf
  retriever below it.
\<close>

theorem windows_are_nested:
  assumes "k \<le> 100"
  shows "(\<exists>fw. fusion_window (b_clause (hybrid_rrf_body q v k)) = Some fw \<and> k \<le> fw)
       \<and> (\<exists>fw rw. fusion_window (b_clause (full_pipeline_body q v k)) = Some fw
              \<and> rerank_window (b_clause (full_pipeline_body q v k)) = Some rw \<and> rw \<le> fw)"
  using assms by (simp add: hybrid_rrf_body_def full_pipeline_body_def)

theorem windows_are_nested_witness:
  "(12::int) \<le> 100
   \<and> fusion_window (b_clause (hybrid_rrf_body (ascii ''lego'') [1 / 2] 12)) = Some 100
   \<and> fusion_window (b_clause (full_pipeline_body (ascii ''lego'') [1 / 2] 12)) = Some 100
   \<and> rerank_window (b_clause (full_pipeline_body (ascii ''lego'') [1 / 2] 12)) = Some 50"
  using windows_are_nested [of 12 "ascii ''lego''" "[1 / 2]"]
  by (simp add: hybrid_rrf_body_def full_pipeline_body_def)

lemma ten_times_capped_le: "ten_times_capped cap k \<le> 10 * k"
  by (simp add: ten_times_capped_def)

text \<open>
  C6, as stated, fails on the sizing rule: at \<open>k = 5\<close> the vector request asks for 100
  candidates, while ten candidates per neighbour is 50, and a cap can only lower that.
\<close>

theorem vector_pool_counterexample:
  "map knn_num_candidates (knn_requests (b_clause (vector_body [] 5))) = [100]
   \<and> ten_times_capped 100 5 = 50"
  by (simp add: vector_body_def ten_times_capped_def)

text \<open>
  C6, amended. For every result count below 100, so for every value of the slider, the
  candidate pool of the vector request is the constant 100, whatever the result count,
  and is strictly greater than the number of neighbours requested; at \<open>k = 5\<close> it is 100,
  which is at least 50.
\<close>

theorem vector_pool_is_constant:
  assumes "k < 100"
  shows "\<exists>kn. knn_requests (b_clause (vector_body v k)) = [kn] \<and> knn_k kn = k
           \<and> knn_num_candidates kn = 100 \<and> knn_k kn < knn_num_candidates kn"
  using assms by (simp add: vector_body_def)

theorem vector_pool_is_constant_witness:
  "(5::int) < 100
   \<and> map knn_k (knn_requests (b_clause (vector_body [] 5))) = [5]
   \<and> map knn_num_candidates (knn_requests (b_clause (vector_body [] 5))) = [100]
   \<and> list_all (\<lambda>c. 50 \<le> c) (map knn_num_candidates (knn_requests (b_clause (vector_body [] 5))))"
  using vector_pool_is_constant [of 5 "[]"] by (simp add: vector_body_def)

lemma names_of_the_fields:
  "field_name (ascii ''product_name^3'') = ascii ''product_name''"
  "field_name (ascii ''brand^2'') = ascii ''brand''"
  "field_name (ascii ''category^1.5'') = ascii ''category''"
  "field_name (ascii ''document_text'') = ascii ''document_text''"
  by (simp_all add: field_name_def ascii_def)

lemma boosts_of_the_fields:
  "field_boost (ascii ''product_name^3'') = Some 3"
  "field_boost (ascii ''brand^2'') = Some 2"
  "field_boost (ascii ''category^1.5'') = Some (3 / 2)"
  "field_boost (ascii ''document_text'') = Some 1"
  by (simp_all add: field_boost_def parse_decimal_def parse_digits_def is_digit_def ascii_def)

text \<open>
  C5. The lexical sub-request of \<^verbatim>\<open>bm25_search\<close> lists the fields product_name, brand,
  category and document_text with the boosts 3, 2, 1.5 and 1, each strictly smaller than
  the one before. The hybrid and the full pipeline requests hold one lexical sub-request
  each, with the same field list and the same query. All three are combined as
  \<^verbatim>\<open>best_fields\<close>: \<^verbatim>\<open>bm25_search\<close> says so, the other two leave the type to the backend.
\<close>

theorem lexical_boosts_are_fixed:
  "map (map field_name \<circ> mm_fields) (lexical_requests (b_clause (bm25_body q k)))
     = [[ascii ''product_name'', ascii ''brand'', ascii ''category'', ascii ''document_text'']]
   \<and> map (map field_boost \<circ> mm_fields) (lexical_requests (b_clause (bm25_body q k)))
     = [[Some 3, Some 2, Some (3 / 2), Some 1]]
   \<and> list_all (strictly_decreasing \<circ> map field_boost \<circ> mm_fields)
        (lexical_requests (b_clause (bm25_body q k)))
   \<and> map mm_fields (lexical_requests (b_clause (hybrid_rrf_body q v k)))
     = map mm_fields (lexical_requests (b_clause (bm25_body q k)))
   \<and> map mm_fields (lexical_requests (b_clause (full_pipeline_body q v k)))
     = map mm_fields (lexical_requests (b_clause (bm25_body q k)))
   \<and> map mm_query (lexical_requests (b_clause (bm25_body q k))) = [q]
   \<and> map mm_query (lexical_requests (b_clause (hybrid_rrf_body q v k))) = [q]
   \<and> map mm_query (lexical_requests (b_clause (full_pipeline_body q v k))) = [q]
   \<and> map multi_match_type (lexical_requests (b_clause (bm25_body q k)))
     = [ascii ''best_fields'']
   \<and> map multi_match_type (lexical_requests (b_clause (hybrid_rrf_body q v k)))
     = [ascii ''best_fields'']
   \<and> map multi_match_type (lexical_requests (b_clause (full_pipeline_body q v k)))
     = [ascii ''best_fields'']"
  by (simp add: bm25_body_def hybrid_rrf_body_def full_pipeline_body_def multi_match_type_def
        names_of_the_fields boosts_of_the_fields)

section \<open>Properties of the search functions\<close>

lemma bm25_search_run:
  "bm25_search env q k w =
     (case search env \<lparr>r_index = INDEX_NAME, r_body = bm25_body q k\<rparr> of
        None \<Rightarrow> Inl BackendError | Some hs \<Rightarrow> Inr hs,
      w\<lparr>calls := calls w @ [Search \<lparr>r_index = INDEX_NAME, r_body = bm25_body q k\<rparr>]\<rparr>)"
  by (simp add: bm25_search_def client_search_def)

lemma vector_search_run:
  "vector_search env q k w =
     (case encode env q of
        None \<Rightarrow> (Inl EmbeddingError, w\<lparr>calls := calls w @ [Encode q]\<rparr>)
      | Some v \<Rightarrow>
          (case search env \<lparr>r_index = INDEX_NAME, r_body = vector_body v k\<rparr> of
             None \<Rightarrow> Inl BackendError | Some hs \<Rightarrow> Inr hs,
           w\<lparr>calls := calls w @ [Encode q,
                 Search \<lparr>r_index = INDEX_NAME, r_body = vector_body v k\<rparr>]\<rparr>))"
  by (simp add: vector_search_def io_bind_def model_encode_def client_search_def
        split: option.split)

lemma hybrid_rrf_search_run:
  "hybrid_rrf_search env q k w =
     (case encode env q of
        None \<Rightarrow> (Inl EmbeddingError, w\<lparr>calls := calls w @ [Encode q]\<rparr>)
      | Some v \<Rightarrow>
          (case search env \<lparr>r_index = INDEX_NAME, r_body = hybrid_rrf_body q v k\<rparr> of
             None \<Rightarrow> Inl BackendError | Some hs \<Rightarrow> Inr hs,
           w\<lparr>calls := calls w @ [Encode q,
                 Search \<lparr>r_index = INDEX_NAME, r_body = hybrid_rrf_body q v k\<rparr>]\<rparr>))"
  by (simp add: hybrid_rrf_search_def io_bind_def model_encode_def client_search_def
        split: option.split)

lemma full_pipeline_search_run:
  "full_pipeline_search env q k w =
     (case encode env q of
        None \<Rightarrow> (Inl EmbeddingError, w\<lparr>calls := calls w @ [Encode q]\<rparr>)
      | Some v \<Rightarrow>
          (case search env \<lparr>r_index = INDEX_NAME, r_body = full_pipeline_body q v k\<rparr> of
             None \<Rightarrow> Inl BackendError | Some hs \<Rightarrow> Inr hs,
           w\<lparr>calls := calls w @ [Encode q,
                 Search \<lparr>r_index = INDEX_NAME, r_body = full_pipeline_body q v k\<rparr>]\<rparr>))"
  by (simp add: full_pipeline_search_def io_bind_def model_encode_def client_search_def
        split: option.split)

lemma body_sizes:
  "b_size (bm25_body q k) = k" "b_size (vector_body v k) = k"
  "b_size (hybrid_rrf_body q v k) = k" "b_size (full_pipeline_body q v k) = k"
  by (simp_all add: bm25_body_def vector_body_def hybrid_rrf_body_def full_pipeline_body_def)

lemma search_fn_success:
  assumes "(name, f) \<in> set funcs" and "f env q k w = (Inr hits, w')"
  shows "\<exists>req. last (calls w') = Search req \<and> b_size (r_body req) = k
           \<and> search env req = Some hits"
proof -
  from assms(1) consider "f = full_pipeline_search" | "f = hybrid_rrf_search"
    | "f = vector_search" | "f = bm25_search"
    by (auto simp: funcs_def)
  then show ?thesis
  proof cases
    case 1
    with assms(2) show ?thesis
      by (auto simp: full_pipeline_search_run body_sizes split: option.splits)
  next
    case 2
    with assms(2) show ?thesis
      by (auto simp: hybrid_rrf_search_run body_sizes split: option.splits)
  next
    case 3
    with assms(2) show ?thesis
      by (auto simp: vector_search_run body_sizes split: option.splits)
  next
    case 4
    with assms(2) show ?thesis
      by (auto simp: bm25_search_run body_sizes split: option.splits)
  qed
qed

text \<open>
  C1. Every search function sends a request whose \<^verbatim>\<open>size\<close> is the result count it was
  given. With a backend that returns at most \<^verbatim>\<open>size\<close> hits, whatever a function of
  \<^verbatim>\<open>funcs\<close> returns has at most that many hits: it is the backend's answer to the last
  request, unchanged.
\<close>

theorem result_length_at_most_k:
  assumes "honours_size env" and "(name, f) \<in> set funcs"
    and "f env q k w = (Inr hits, w')"
  shows "int (length hits) \<le> k
       \<and> (\<exists>req. last (calls w') = Search req \<and> b_size (r_body req) = k
              \<and> search env req = Some hits)
       \<and> b_size (bm25_body q k) = k \<and> b_size (vector_body v k) = k
       \<and> b_size (hybrid_rrf_body q v k) = k \<and> b_size (full_pipeline_body q v k) = k"
proof -
  from search_fn_success [OF assms(2,3)] obtain req where
    req: "last (calls w') = Search req" "b_size (r_body req) = k" "search env req = Some hits"
    by blast
  from assms(1) req(3) have "int (length hits) \<le> b_size (r_body req)"
    by (simp add: honours_size_def)
  with req show ?thesis
    by (auto simp: body_sizes)
qed

lemma sample_env_honours_size: "honours_size sample_env"
  by (auto simp: honours_size_def sample_env_def sample_backend_def split: if_splits)

theorem result_length_at_most_k_witness:
  "honours_size sample_env
   \<and> (ascii ''Vector Semantic'', vector_search) \<in> set funcs
   \<and> vector_search sample_env (ascii ''lego'') 3 fresh =
       (Inr (take 3 sample_hits),
        fresh\<lparr>calls := calls fresh @ [Encode (ascii ''lego''),
          Search \<lparr>r_index = INDEX_NAME, r_body = vector_body [1 / 2, - 1 / 4, 0] 3\<rparr>]\<rparr>)
   \<and> length sample_hits = 4
   \<and> int (length (take 3 sample_hits)) \<le> 3"
proof -
  have h1: "honours_size sample_env"
    by (rule sample_env_honours_size)
  have h2: "(ascii ''Vector Semantic'', vector_search) \<in> set funcs"
    by (simp add: funcs_def)
  have h3: "vector_search sample_env (ascii ''lego'') 3 fresh =
       (Inr (take 3 sample_hits),
        fresh\<lparr>calls := calls fresh @ [Encode (ascii ''lego''),
          Search \<lparr>r_index = INDEX_NAME, r_body = vector_body [1 / 2, - 1 / 4, 0] 3\<rparr>]\<rparr>)"
    by (simp add: vector_search_run sample_env_def sample_backend_def body_sizes)
  have h4: "length sample_hits = 4"
    by (simp add: sample_hits_def)
  from result_length_at_most_k [OF h1 h2 h3] h1 h2 h3 h4 show ?thesis
    by simp
qed

text \<open>
  C7. \<^verbatim>\<open>bm25_search\<close> makes one call, to the backend; it never calls the embedding model,
  never fails with the model's error, and returns the same whatever the model is. The
  other three functions call the model first, then the backend once if the model
  answered, and fail with the model's error exactly when the model fails.
\<close>

theorem embedding_only_where_needed:
  "calls (snd (bm25_search env q k w))
     = calls w @ [Search \<lparr>r_index = INDEX_NAME, r_body = bm25_body q k\<rparr>]
   \<and> fst (bm25_search env q k w) \<noteq> Inl EmbeddingError
   \<and> bm25_search (env\<lparr>encode := other_model\<rparr>) q k w = bm25_search env q k w
   \<and> calls (snd (vector_search env q k w))
     = calls w @ Encode q # (case encode env q of None \<Rightarrow> []
         | Some v \<Rightarrow> [Search \<lparr>r_index = INDEX_NAME, r_body = vector_body v k\<rparr>])
   \<and> calls (snd (hybrid_rrf_search env q k w))
     = calls w @ Encode q # (case encode env q of None \<Rightarrow> []
         | Some v \<Rightarrow> [Search \<lparr>r_index = INDEX_NAME, r_body = hybrid_rrf_body q v k\<rparr>])
   \<and> calls (snd (full_pipeline_search env q k w))
     = calls w @ Encode q # (case encode env q of None \<Rightarrow> []
         | Some v \<Rightarrow> [Search \<lparr>r_index = INDEX_NAME, r_body = full_pipeline_body q v k\<rparr>])
   \<and> (fst (vector_search env q k w) = Inl EmbeddingError) = (encode env q = None)
   \<and> (fst (hybrid_rrf_search env q k w) = Inl EmbeddingError) = (encode env q = None)
   \<and> (fst (full_pipeline_search env q k w) = Inl EmbeddingError) = (encode env q = None)"
  by (simp add: bm25_search_run vector_search_run hybrid_rrf_search_run
        full_pipeline_search_run split: option.split)

section \<open>Properties of the rendering\<close>




lemma brand_text_absent:
  "s (ascii ''brand'') = None \<Longrightarrow> brand_text env s = ascii ''N/A''"
  by (simp add: brand_text_def dict_get_def)

lemma category_text_absent:
  "s (ascii ''category'') = None \<Longrightarrow> category_text s = Inr (ascii ''N/A'')"
  by (simp add: category_text_def dict_get_def ascii_def)

lemma brand_text_nan:
  "s (ascii ''brand'') = Some (JStr (ascii ''nan'')) \<Longrightarrow> brand_text env s = ascii ''N/A''"
  by (simp add: brand_text_def dict_get_def)

lemma category_text_nan:
  "s (ascii ''category'') = Some (JStr (ascii ''nan'')) \<Longrightarrow> category_text s = Inr (ascii ''N/A'')"
  by (simp add: category_text_def dict_get_def)

lemma image_cell_success:
  assumes "image_cell env v w = (Inr (), w')"
  shows "\<exists>img. w' = w\<lparr>page := page w @ [(ascii ''col_img'', img)]\<rparr>"
  using assms
  by (auto simp: image_cell_def st_def io_raise_def split: if_splits jvalue.splits)

lemma detailed_hit_success:
  assumes "detailed_hit env i hit w = (Inr (), w')"
  shows "\<exists>img name price category score.
      h_source hit (ascii ''product_name'') = Some name
      \<and> price_text (h_source hit) = Inr price
      \<and> category_text (h_source hit) = Inr category
      \<and> py_format_f 3 (h_score hit) = Inr score
      \<and> w' = w\<lparr>page := page w @ [
          (ascii ''col_img'', img),
          (ascii ''col_info'', Markdown (ascii ''### '' @ str_of_int i @ ascii ''. '' @ py_str env name)),
          (ascii ''d1'', Markdown (ascii ''**Brand:** '' @ brand_text env (h_source hit))),
          (ascii ''d2'', Markdown (ascii ''**Price:** $'' @ price)),
          (ascii ''d3'', Markdown (ascii ''**Category:** '' @ category)),
          (ascii ''d4'', Markdown (ascii ''**Score:** '' @ score)),
          (ascii ''main'', Markdown (ascii ''---''))]\<rparr>"
proof -
  obtain r1 w1 where c1: "image_cell env (dict_get (h_source hit) (ascii ''image_url'') (JStr [])) w = (r1, w1)"
    by (cases "image_cell env (dict_get (h_source hit) (ascii ''image_url'') (JStr [])) w")
  with assms have r1: "r1 = Inr ()"
    by (cases r1) (auto simp: detailed_hit_def io_bind_def Let_def)
  from image_cell_success [OF c1 [unfolded r1]] obtain img where
    w1: "w1 = w\<lparr>page := page w @ [(ascii ''col_img'', img)]\<rparr>" by blast
  from assms c1 r1 w1 show ?thesis
    by (auto simp: detailed_hit_def io_bind_def Let_def io_of_def st_def dict_item_def
          split: option.splits sum.splits)
qed




lemma sample_texts:
  "str_of_int 2 = ascii ''2''" "str_of_int 3 = ascii ''3''"
  "format_f 3 1 = ascii ''1.000''" "format_f 3 (3 / 4) = ascii ''0.750''"
  "py_format_f 2 (JInt 7) = Inr (ascii ''7.00'')"
  by code_simp+



text \<open>
  C9. In the card of the single-method mode a brand or a category that is the string
  \<^verbatim>\<open>nan\<close> is printed as \<^verbatim>\<open>N/A\<close>, exactly as if the key were absent.
\<close>

theorem nan_is_shown_as_not_available:
  "(s (ascii ''brand'') = Some (JStr (ascii ''nan'')) \<longrightarrow> brand_text env s = ascii ''N/A'')
   \<and> (s (ascii ''category'') = Some (JStr (ascii ''nan''))
      \<longrightarrow> category_text s = Inr (ascii ''N/A''))
   \<and> brand_text env (s(ascii ''brand'' \<mapsto> JStr (ascii ''nan'')))
       = brand_text env (s(ascii ''brand'' := None))
   \<and> category_text (s(ascii ''category'' \<mapsto> JStr (ascii ''nan'')))
       = category_text (s(ascii ''category'' := None))
   \<and> (detailed_hit env i hit w = (Inr (), w')
        \<and> h_source hit (ascii ''brand'') = Some (JStr (ascii ''nan''))
      \<longrightarrow> (ascii ''d1'', Markdown (ascii ''**Brand:** N/A'')) \<in> set (page w'))
   \<and> (detailed_hit env i hit w = (Inr (), w')
        \<and> h_source hit (ascii ''category'') = Some (JStr (ascii ''nan''))
      \<longrightarrow> (ascii ''d3'', Markdown (ascii ''**Category:** N/A'')) \<in> set (page w'))"
proof -
  have cells:
    "s (ascii ''brand'') = Some (JStr (ascii ''nan'')) \<longrightarrow> brand_text env s = ascii ''N/A''"
    "s (ascii ''category'') = Some (JStr (ascii ''nan''))
       \<longrightarrow> category_text s = Inr (ascii ''N/A'')"
    by (simp_all add: brand_text_nan category_text_nan)
  have same:
    "brand_text env (s(ascii ''brand'' \<mapsto> JStr (ascii ''nan'')))
       = brand_text env (s(ascii ''brand'' := None))"
    "category_text (s(ascii ''category'' \<mapsto> JStr (ascii ''nan'')))
       = category_text (s(ascii ''category'' := None))"
    by (simp_all add: brand_text_nan category_text_nan brand_text_absent category_text_absent)
  have d1: "detailed_hit env i hit w = (Inr (), w')
        \<and> h_source hit (ascii ''brand'') = Some (JStr (ascii ''nan''))
      \<longrightarrow> (ascii ''d1'', Markdown (ascii ''**Brand:** N/A'')) \<in> set (page w')"
  proof
    assume a: "detailed_hit env i hit w = (Inr (), w')
        \<and> h_source hit (ascii ''brand'') = Some (JStr (ascii ''nan''))"
    from detailed_hit_success [of env i hit w w'] a brand_text_nan [of "h_source hit" env]
    show "(ascii ''d1'', Markdown (ascii ''**Brand:** N/A'')) \<in> set (page w')"
      by (auto simp: ascii_def)
  qed
  have d3: "detailed_hit env i hit w = (Inr (), w')
        \<and> h_source hit (ascii ''category'') = Some (JStr (ascii ''nan''))
      \<longrightarrow> (ascii ''d3'', Markdown (ascii ''**Category:** N/A'')) \<in> set (page w')"
  proof
    assume a: "detailed_hit env i hit w = (Inr (), w')
        \<and> h_source hit (ascii ''category'') = Some (JStr (ascii ''nan''))"
    from detailed_hit_success [of env i hit w w'] a category_text_nan [of "h_source hit"]
    show "(ascii ''d3'', Markdown (ascii ''**Category:** N/A'')) \<in> set (page w')"
      by (auto simp: ascii_def)
  qed
  from cells same d1 d3 show ?thesis
    by blast
qed

lemma plush_bear_card:
  "detailed_hit sample_env 3 (sample_hits ! 2) fresh =
     (Inr (), fresh\<lparr>page := [
        (ascii ''col_img'', Write [0x1F5BC, 0xFE0F]),
        (ascii ''col_info'', Markdown (ascii ''### 3. Plush Bear'')),
        (ascii ''d1'', Markdown (ascii ''**Brand:** N/A'')),
        (ascii ''d2'', Markdown (ascii ''**Price:** $7.00'')),
        (ascii ''d3'', Markdown (ascii ''**Category:** N/A'')),
        (ascii ''d4'', Markdown (ascii ''**Score:** 0.750'')),
        (ascii ''main'', Markdown (ascii ''---''))]\<rparr>)"
proof -
  have h:
    "h_source (sample_hits ! 2) (ascii ''price'') = Some (JInt 7)"
    "h_source (sample_hits ! 2) (ascii ''brand'') = Some (JStr (ascii ''nan''))"
    "h_source (sample_hits ! 2) (ascii ''category'') = Some (JStr (ascii ''nan''))"
    "h_source (sample_hits ! 2) (ascii ''image_url'') = None"
    "h_source (sample_hits ! 2) (ascii ''product_name'') = Some (JStr (ascii ''Plush Bear''))"
    "h_score (sample_hits ! 2) = JFloat (3 / 4)"
    by (simp_all add: sample_hits_def ascii_def)
  have texts:
    "price_text (h_source (sample_hits ! 2)) = Inr (ascii ''7.00'')"
    "brand_text sample_env (h_source (sample_hits ! 2)) = ascii ''N/A''"
    "category_text (h_source (sample_hits ! 2)) = Inr (ascii ''N/A'')"
    using h sample_texts(5)
    by (simp_all add: price_text_def dict_get_def brand_text_nan category_text_nan)
  show ?thesis
    using h
    by (simp add: detailed_hit_def Let_def io_bind_def io_of_def dict_item_def st_def
          image_cell_def dict_get_def texts sample_texts fresh_def ascii_def)
qed

theorem nan_is_shown_as_not_available_witness:
  "h_source (sample_hits ! 2) (ascii ''brand'') = Some (JStr (ascii ''nan''))
   \<and> h_source (sample_hits ! 2) (ascii ''category'') = Some (JStr (ascii ''nan''))
   \<and> brand_text sample_env (h_source (sample_hits ! 2)) = ascii ''N/A''
   \<and> category_text (h_source (sample_hits ! 2)) = Inr (ascii ''N/A'')
   \<and> fst (detailed_hit sample_env 3 (sample_hits ! 2) fresh) = Inr ()
   \<and> (ascii ''d1'', Markdown (ascii ''**Brand:** N/A''))
       \<in> set (page (snd (detailed_hit sample_env 3 (sample_hits ! 2) fresh)))
   \<and> (ascii ''d3'', Markdown (ascii ''**Category:** N/A''))
       \<in> set (page (snd (detailed_hit sample_env 3 (sample_hits ! 2) fresh)))"
proof -
  have h:
    "h_source (sample_hits ! 2) (ascii ''brand'') = Some (JStr (ascii ''nan''))"
    "h_source (sample_hits ! 2) (ascii ''category'') = Some (JStr (ascii ''nan''))"
    by (simp_all add: sample_hits_def ascii_def)
  have run: "detailed_hit sample_env 3 (sample_hits ! 2) fresh =
      (Inr (), snd (detailed_hit sample_env 3 (sample_hits ! 2) fresh))"
    by (simp add: plush_bear_card)
  from nan_is_shown_as_not_available [where s = "h_source (sample_hits ! 2)"
      and hit = "sample_hits ! 2" and env = sample_env and i = 3 and w = fresh
      and w' = "snd (detailed_hit sample_env 3 (sample_hits ! 2) fresh)"] h run
  show ?thesis
    by (simp add: plush_bear_card)
qed

section \<open>Properties of the page\<close>




lemma float_of_small: "float_of_int 0 = Inr 0" "float_of_int 7 = Inr 7"
  by code_simp+

lemma outage_facts:
  "search vector_outage_env \<lparr>r_index = INDEX_NAME, r_body = bm25_body (ascii ''lego'') 3\<rparr>
     = Some (take 3 sample_hits)"
  "list_all compact_ok (take 3 sample_hits)"
  "encode vector_outage_env (ascii ''lego'') = Some [1 / 2, - 1 / 4, 0]"
  "search vector_outage_env
     \<lparr>r_index = INDEX_NAME, r_body = vector_body [1 / 2, - 1 / 4, 0] 3\<rparr> = None"
  by (simp_all add: vector_outage_env_def sample_env_def sample_backend_def bm25_body_def
        vector_body_def sample_hits_def compact_ok_def price_text_def dict_get_def
        float_of_small ascii_def)


lemma bm25_search_stateless:
  "bm25_search env q k \<lparr>calls = cs, page = pg, ticks = tk\<rparr> =
     (reply bm25_search env q k,
      \<lparr>calls = cs @ trace bm25_search env q k, page = pg, ticks = tk\<rparr>)"
  by (simp add: reply_def trace_def bm25_search_run fresh_def)

lemma vector_search_stateless:
  "vector_search env q k \<lparr>calls = cs, page = pg, ticks = tk\<rparr> =
     (reply vector_search env q k,
      \<lparr>calls = cs @ trace vector_search env q k, page = pg, ticks = tk\<rparr>)"
  by (simp add: reply_def trace_def vector_search_run fresh_def split: option.split)

lemma hybrid_rrf_search_stateless:
  "hybrid_rrf_search env q k \<lparr>calls = cs, page = pg, ticks = tk\<rparr> =
     (reply hybrid_rrf_search env q k,
      \<lparr>calls = cs @ trace hybrid_rrf_search env q k, page = pg, ticks = tk\<rparr>)"
  by (simp add: reply_def trace_def hybrid_rrf_search_run fresh_def split: option.split)

lemma full_pipeline_search_stateless:
  "full_pipeline_search env q k \<lparr>calls = cs, page = pg, ticks = tk\<rparr> =
     (reply full_pipeline_search env q k,
      \<lparr>calls = cs @ trace full_pipeline_search env q k, page = pg, ticks = tk\<rparr>)"
  by (simp add: reply_def trace_def full_pipeline_search_run fresh_def split: option.split)

lemma compact_hit_run:
  "\<exists>cells. compact_hit col i h \<lparr>calls = cs, page = pg, ticks = tk\<rparr> =
      (fst (compact_hit col j h w0), \<lparr>calls = cs, page = pg @ cells, ticks = tk\<rparr>)
     \<and> set (map fst cells) \<subseteq> {col}"
proof (cases "dict_item (h_source h) (ascii ''product_name'')")
  case (Inl e)
  then show ?thesis
    by (intro exI [of _ "[]"]) (simp add: compact_hit_def Let_def io_bind_def io_of_def)
next
  case name: (Inr name)
  show ?thesis
  proof (cases "slice_to 40 name")
    case (Inl e)
    with name show ?thesis
      by (intro exI [of _ "[]"]) (simp add: compact_hit_def Let_def io_bind_def io_of_def)
  next
    case short: (Inr short)
    show ?thesis
    proof (cases "price_text (h_source h)")
      case (Inl e)
      with name short show ?thesis
        by (intro exI [of _ "[(col, Markdown (ascii ''**'' @ str_of_int i @ ascii ''.** ''
              @ short @ ascii ''...''))]"])
           (simp add: compact_hit_def Let_def io_bind_def io_of_def st_def)
    next
      case (Inr price)
      with name short show ?thesis
        by (intro exI [of _ "[(col, Markdown (ascii ''**'' @ str_of_int i @ ascii ''.** ''
              @ short @ ascii ''...'')), (col, Caption (ascii ''$'' @ price))]"])
           (simp add: compact_hit_def Let_def io_bind_def io_of_def st_def)
    qed
  qed
qed

lemma for_hits_run:
  "\<exists>cells. for_hits (compact_hit col) i hs \<lparr>calls = cs, page = pg, ticks = tk\<rparr> =
      (fst (for_hits (compact_hit col) j hs w0), \<lparr>calls = cs, page = pg @ cells, ticks = tk\<rparr>)
     \<and> set (map fst cells) \<subseteq> {col}"
proof (induction hs arbitrary: i j pg w0)
  case Nil
  show ?case
    by (intro exI [of _ "[]"]) (simp add: io_return_def)
next
  case (Cons h hs)
  obtain cs0 pg0 tk0 where w0: "w0 = \<lparr>calls = cs0, page = pg0, ticks = tk0\<rparr>"
    by (cases w0)
  from compact_hit_run [of col i h cs pg tk j w0] obtain c1 where
    a: "compact_hit col i h \<lparr>calls = cs, page = pg, ticks = tk\<rparr> =
          (fst (compact_hit col j h w0), \<lparr>calls = cs, page = pg @ c1, ticks = tk\<rparr>)"
    and a': "set (map fst c1) \<subseteq> {col}"
    by blast
  from compact_hit_run [of col j h cs0 pg0 tk0 j w0] obtain c0 where
    b: "compact_hit col j h w0 =
          (fst (compact_hit col j h w0), \<lparr>calls = cs0, page = pg0 @ c0, ticks = tk0\<rparr>)"
    unfolding w0 by blast
  show ?case
  proof (cases "fst (compact_hit col j h w0)")
    case (Inl e)
    with a b a' show ?thesis
      by (intro exI [of _ c1]) (simp add: io_bind_def)
  next
    case (Inr u)
    from Cons.IH [of "i + 1" "pg @ c1" "j + 1" "\<lparr>calls = cs0, page = pg0 @ c0, ticks = tk0\<rparr>"]
    obtain c2 where
      c: "for_hits (compact_hit col) (i + 1) hs \<lparr>calls = cs, page = pg @ c1, ticks = tk\<rparr> =
            (fst (for_hits (compact_hit col) (j + 1) hs
                    \<lparr>calls = cs0, page = pg0 @ c0, ticks = tk0\<rparr>),
             \<lparr>calls = cs, page = (pg @ c1) @ c2, ticks = tk\<rparr>)"
      and c': "set (map fst c2) \<subseteq> {col}"
      by blast
    have lhs: "for_hits (compact_hit col) i (h # hs) \<lparr>calls = cs, page = pg, ticks = tk\<rparr> =
        for_hits (compact_hit col) (i + 1) hs \<lparr>calls = cs, page = pg @ c1, ticks = tk\<rparr>"
      using a Inr by (simp add: io_bind_def)
    have rhs: "fst (for_hits (compact_hit col) j (h # hs) w0) =
        fst (for_hits (compact_hit col) (j + 1) hs \<lparr>calls = cs0, page = pg0 @ c0, ticks = tk0\<rparr>)"
      using b Inr by (simp add: io_bind_def split: prod.splits sum.splits)
    from a' c' show ?thesis
      by (intro exI [of _ "c1 @ c2"]) (simp add: lhs rhs c del: for_hits.simps)
  qed
qed

lemma prints_run:
  "\<exists>cells. for_hits (compact_hit col) 1 hs \<lparr>calls = cs, page = pg, ticks = tk\<rparr> =
      (prints col hs, \<lparr>calls = cs, page = pg @ cells, ticks = tk\<rparr>)
     \<and> set (map fst cells) \<subseteq> {col}"
  unfolding prints_def by (rule for_hits_run)

lemma column_block_run:
  assumes "\<And>cs pg tk. f env q k \<lparr>calls = cs, page = pg, ticks = tk\<rparr> =
     (reply f env q k, \<lparr>calls = cs @ trace f env q k, page = pg, ticks = tk\<rparr>)"
  shows "\<exists>cells tk'. column_block env col title f q k \<lparr>calls = cs, page = pg, ticks = tk\<rparr> =
      (column_outcome f col env q k,
       \<lparr>calls = cs @ trace f env q k, page = pg @ (col, Markdown title) # cells, ticks = tk'\<rparr>)
     \<and> set (map fst cells) \<subseteq> {col}"
proof (cases "reply f env q k")
  case (Inl e)
  then show ?thesis
    by (intro exI [of _ "[]"] exI [of _ "Suc tk"])
       (simp add: column_block_def column_outcome_def io_bind_def st_def time_time_def assms)
next
  case (Inr hs)
  define metric where "metric = (col, Metric (ascii ''Latency'')
      (format_f 0 (float_mul env (float_sub env (now env (Suc tk)) (now env tk)) 1000)
         @ ascii ''ms''))"
  from prints_run [of col hs "cs @ trace f env q k" "pg @ [(col, Markdown title), metric]"
      "Suc (Suc tk)"]
  obtain cells where
    loop: "for_hits (compact_hit col) 1 hs
        \<lparr>calls = cs @ trace f env q k, page = (pg @ [(col, Markdown title), metric]),
          ticks = Suc (Suc tk)\<rparr> =
      (prints col hs, \<lparr>calls = cs @ trace f env q k,
          page = (pg @ [(col, Markdown title), metric]) @ cells, ticks = Suc (Suc tk)\<rparr>)"
    and cols: "set (map fst cells) \<subseteq> {col}"
    by blast
  have "column_block env col title f q k \<lparr>calls = cs, page = pg, ticks = tk\<rparr> =
      (column_outcome f col env q k,
       \<lparr>calls = cs @ trace f env q k, page = pg @ (col, Markdown title) # metric # cells,
         ticks = Suc (Suc tk)\<rparr>)"
    using Inr loop
    by (simp add: column_block_def column_outcome_def io_bind_def st_def time_time_def assms
          metric_def)
  with cols show ?thesis
    by (intro exI [of _ "metric # cells"] exI [of _ "Suc (Suc tk)"]) (simp add: metric_def)
qed

lemma comparison_block_run:
  "\<exists>w'. comparison_block env q k w =
     (case column_outcome bm25_search (ascii ''col1'') env q k of Inl e \<Rightarrow> Inl e | Inr u \<Rightarrow>
      case column_outcome vector_search (ascii ''col2'') env q k of Inl e \<Rightarrow> Inl e | Inr u \<Rightarrow>
      case column_outcome hybrid_rrf_search (ascii ''col3'') env q k of Inl e \<Rightarrow> Inl e | Inr u \<Rightarrow>
      column_outcome full_pipeline_search (ascii ''col4'') env q k, w')
   \<and> calls w' = calls w @ trace bm25_search env q k @
       (case column_outcome bm25_search (ascii ''col1'') env q k of Inl e \<Rightarrow> [] | Inr u \<Rightarrow>
        trace vector_search env q k @
        (case column_outcome vector_search (ascii ''col2'') env q k of Inl e \<Rightarrow> [] | Inr u \<Rightarrow>
         trace hybrid_rrf_search env q k @
         (case column_outcome hybrid_rrf_search (ascii ''col3'') env q k of Inl e \<Rightarrow> []
          | Inr u \<Rightarrow> trace full_pipeline_search env q k)))
   \<and> set (map fst (page w')) = set (map fst (page w)) \<union> {ascii ''main'', ascii ''col1''} \<union>
       (case column_outcome bm25_search (ascii ''col1'') env q k of Inl e \<Rightarrow> {} | Inr u \<Rightarrow>
        {ascii ''col2''} \<union>
        (case column_outcome vector_search (ascii ''col2'') env q k of Inl e \<Rightarrow> {} | Inr u \<Rightarrow>
         {ascii ''col3''} \<union>
         (case column_outcome hybrid_rrf_search (ascii ''col3'') env q k of Inl e \<Rightarrow> {}
          | Inr u \<Rightarrow> {ascii ''col4''})))"
proof -
  obtain cs pg tk where w: "w = \<lparr>calls = cs, page = pg, ticks = tk\<rparr>"
    by (cases w)
  define pg0 where "pg0 = pg @ [(ascii ''main'',
      Markdown (ascii ''### '' @ [0x1F52C] @ ascii '' Method Comparison''))]"
  define T1 where "T1 = ascii ''**'' @ [0x1F4DD] @ ascii '' BM25**''"
  define T2 where "T2 = ascii ''**'' @ [0x1F9E0] @ ascii '' Vector**''"
  define T3 where "T3 = ascii ''**'' @ [0x1F500] @ ascii '' Hybrid**''"
  define T4 where "T4 = ascii ''**'' @ [0x1F680] @ ascii '' Pipeline**''"
  define o1 where "o1 = column_outcome bm25_search (ascii ''col1'') env q k"
  define o2 where "o2 = column_outcome vector_search (ascii ''col2'') env q k"
  define o3 where "o3 = column_outcome hybrid_rrf_search (ascii ''col3'') env q k"
  define o4 where "o4 = column_outcome full_pipeline_search (ascii ''col4'') env q k"
  define t1 where "t1 = trace bm25_search env q k"
  define t2 where "t2 = trace vector_search env q k"
  define t3 where "t3 = trace hybrid_rrf_search env q k"
  define t4 where "t4 = trace full_pipeline_search env q k"
  have block: "comparison_block env q k w =
      io_bind (column_block env (ascii ''col1'') T1 bm25_search q k) (\<lambda>_.
      io_bind (column_block env (ascii ''col2'') T2 vector_search q k) (\<lambda>_.
      io_bind (column_block env (ascii ''col3'') T3 hybrid_rrf_search q k) (\<lambda>_.
      io_bind (column_block env (ascii ''col4'') T4 full_pipeline_search q k) (\<lambda>_.
      io_bind (st (ascii ''main'') (Markdown (ascii ''---''))) (\<lambda>_.
      st (ascii ''main'')
        (Success ([0x1F4A1] @ ascii '' Full Pipeline reranks for maximum relevance!'')))))))
      \<lparr>calls = cs, page = pg0, ticks = tk\<rparr>"
    by (simp add: comparison_block_def io_bind_def st_def w pg0_def T1_def T2_def T3_def T4_def)
  from column_block_run [where f = bm25_search and env = env and q = q and k = k
        and cs = "cs" and pg = pg0 and tk = tk and col = "ascii ''col1''" and title = T1,
        OF bm25_search_stateless]
  obtain c1 tk1 where
    s1: "column_block env (ascii ''col1'') T1 bm25_search q k
           \<lparr>calls = cs, page = pg0, ticks = tk\<rparr> =
         (o1, \<lparr>calls = cs @ t1, page = pg0 @ (ascii ''col1'', Markdown T1) # c1, ticks = tk1\<rparr>)"
    and k1: "set (map fst c1) \<subseteq> {ascii ''col1''}"
    unfolding o1_def t1_def by blast
  define p1 where "p1 = pg0 @ (ascii ''col1'', Markdown T1) # c1"
  have q1: "set (map fst p1) = set (map fst pg) \<union> {ascii ''main'', ascii ''col1''}"
    using k1 by (auto simp: p1_def pg0_def)
  show ?thesis
  proof (cases o1)
    case (Inl e)
    with s1 q1 show ?thesis
      unfolding block
      by (intro exI [of _ "\<lparr>calls = cs @ t1, page = p1, ticks = tk1\<rparr>"])
         (simp add: io_bind_def w p1_def o1_def [symmetric] t1_def [symmetric])
  next
    case r1: (Inr u1)
    from column_block_run [where f = vector_search and env = env and q = q and k = k
        and cs = "cs @ t1" and pg = p1 and tk = tk1 and col = "ascii ''col2''" and title = T2,
        OF vector_search_stateless]
    obtain c2 tk2 where
      s2: "column_block env (ascii ''col2'') T2 vector_search q k
             \<lparr>calls = cs @ t1, page = p1, ticks = tk1\<rparr> =
           (o2, \<lparr>calls = (cs @ t1) @ t2, page = p1 @ (ascii ''col2'', Markdown T2) # c2,
                 ticks = tk2\<rparr>)"
      and k2: "set (map fst c2) \<subseteq> {ascii ''col2''}"
      unfolding o2_def t2_def by blast
    define p2 where "p2 = p1 @ (ascii ''col2'', Markdown T2) # c2"
    have q2: "set (map fst p2) = set (map fst pg) \<union> {ascii ''main'', ascii ''col1''}
        \<union> {ascii ''col2''}"
      using k2 q1 by (auto simp: p2_def)
    show ?thesis
    proof (cases o2)
      case (Inl e)
      with s1 s2 r1 q2 show ?thesis
        unfolding block
        by (intro exI [of _ "\<lparr>calls = (cs @ t1) @ t2, page = p2, ticks = tk2\<rparr>"])
           (simp add: io_bind_def w p1_def [symmetric] p2_def [symmetric]
              o1_def [symmetric] o2_def [symmetric] t1_def [symmetric] t2_def [symmetric])
    next
      case r2: (Inr u2)
      from column_block_run [where f = hybrid_rrf_search and env = env and q = q and k = k
        and cs = "(cs @ t1) @ t2" and pg = p2 and tk = tk2 and col = "ascii ''col3''" and title = T3,
        OF hybrid_rrf_search_stateless]
      obtain c3 tk3 where
        s3: "column_block env (ascii ''col3'') T3 hybrid_rrf_search q k
               \<lparr>calls = (cs @ t1) @ t2, page = p2, ticks = tk2\<rparr> =
             (o3, \<lparr>calls = ((cs @ t1) @ t2) @ t3,
                   page = p2 @ (ascii ''col3'', Markdown T3) # c3, ticks = tk3\<rparr>)"
        and k3: "set (map fst c3) \<subseteq> {ascii ''col3''}"
        unfolding o3_def t3_def by blast
      define p3 where "p3 = p2 @ (ascii ''col3'', Markdown T3) # c3"
      have q3: "set (map fst p3) = set (map fst pg) \<union> {ascii ''main'', ascii ''col1''}
          \<union> {ascii ''col2''} \<union> {ascii ''col3''}"
        using k3 q2 by (auto simp: p3_def)
      show ?thesis
      proof (cases o3)
        case (Inl e)
        with s1 s2 s3 r1 r2 q3 show ?thesis
          unfolding block
          by (intro exI [of _ "\<lparr>calls = ((cs @ t1) @ t2) @ t3, page = p3, ticks = tk3\<rparr>"])
             (simp add: io_bind_def w p1_def [symmetric] p2_def [symmetric] p3_def [symmetric]
                o1_def [symmetric] o2_def [symmetric] o3_def [symmetric]
                t1_def [symmetric] t2_def [symmetric] t3_def [symmetric])
      next
        case r3: (Inr u3)
        from column_block_run [where f = full_pipeline_search and env = env and q = q and k = k
        and cs = "((cs @ t1) @ t2) @ t3" and pg = p3 and tk = tk3 and col = "ascii ''col4''" and title = T4,
        OF full_pipeline_search_stateless]
        obtain c4 tk4 where
          s4: "column_block env (ascii ''col4'') T4 full_pipeline_search q k
                 \<lparr>calls = ((cs @ t1) @ t2) @ t3, page = p3, ticks = tk3\<rparr> =
               (o4, \<lparr>calls = (((cs @ t1) @ t2) @ t3) @ t4,
                     page = p3 @ (ascii ''col4'', Markdown T4) # c4, ticks = tk4\<rparr>)"
          and k4: "set (map fst c4) \<subseteq> {ascii ''col4''}"
          unfolding o4_def t4_def by blast
        define p4 where "p4 = p3 @ (ascii ''col4'', Markdown T4) # c4"
        have q4: "set (map fst p4) = set (map fst pg) \<union> {ascii ''main'', ascii ''col1''}
            \<union> {ascii ''col2''} \<union> {ascii ''col3''} \<union> {ascii ''col4''}"
          using k4 q3 by (auto simp: p4_def)
        show ?thesis
        proof (cases o4)
          case (Inl e)
          with s1 s2 s3 s4 r1 r2 r3 q4 show ?thesis
            unfolding block
            by (intro exI [of _ "\<lparr>calls = (((cs @ t1) @ t2) @ t3) @ t4, page = p4,
                  ticks = tk4\<rparr>"])
               (simp add: io_bind_def w p1_def [symmetric] p2_def [symmetric]
                  p3_def [symmetric] p4_def [symmetric]
                  o1_def [symmetric] o2_def [symmetric] o3_def [symmetric] o4_def [symmetric]
                  t1_def [symmetric] t2_def [symmetric] t3_def [symmetric] t4_def [symmetric])
        next
          case r4: (Inr u4)
          with s1 s2 s3 s4 r1 r2 r3 q4 show ?thesis
            unfolding block
            by (intro exI [of _ "\<lparr>calls = (((cs @ t1) @ t2) @ t3) @ t4,
                  page = p4 @ [(ascii ''main'', Markdown (ascii ''---'')),
                    (ascii ''main'', Success ([0x1F4A1]
                       @ ascii '' Full Pipeline reranks for maximum relevance!''))],
                  ticks = tk4\<rparr>"])
               (auto simp: io_bind_def st_def w p1_def [symmetric] p2_def [symmetric]
                  p3_def [symmetric] p4_def [symmetric]
                  o1_def [symmetric] o2_def [symmetric] o3_def [symmetric] o4_def [symmetric]
                  t1_def [symmetric] t2_def [symmetric] t3_def [symmetric] t4_def [symmetric])
        qed
      qed
    qed
  qed
qed

lemma compact_hit_ok_iff:
  "(fst (compact_hit col i h w) = Inr ()) = compact_ok h"
  by (auto simp: compact_ok_def compact_hit_def Let_def io_bind_def io_of_def dict_item_def
        st_def split: option.splits jvalue.splits sum.splits)

lemma for_hits_ok_iff:
  "(fst (for_hits (compact_hit col) i hs w) = Inr ()) = list_all compact_ok hs"
proof (induction hs arbitrary: i w)
  case Nil
  show ?case by (simp add: io_return_def)
next
  case (Cons h hs)
  obtain r w1 where step: "compact_hit col i h w = (r, w1)"
    by (cases "compact_hit col i h w")
  show ?case
  proof (cases r)
    case (Inl e)
    with step compact_hit_ok_iff [of col i h w] show ?thesis
      by (simp add: io_bind_def)
  next
    case (Inr u)
    with step compact_hit_ok_iff [of col i h w] Cons.IH [of "i + 1" w1] show ?thesis
      by (simp add: io_bind_def)
  qed
qed

lemma prints_ok_iff: "(prints col hs = Inr ()) = list_all compact_ok hs"
  unfolding prints_def by (rule for_hits_ok_iff)

lemma replies_and_traces:
  "reply bm25_search env q k =
     (case search env \<lparr>r_index = INDEX_NAME, r_body = bm25_body q k\<rparr> of
        None \<Rightarrow> Inl BackendError | Some hs \<Rightarrow> Inr hs)"
  "trace bm25_search env q k = [Search \<lparr>r_index = INDEX_NAME, r_body = bm25_body q k\<rparr>]"
  "reply vector_search env q k =
     (case encode env q of None \<Rightarrow> Inl EmbeddingError
      | Some v \<Rightarrow>
          (case search env \<lparr>r_index = INDEX_NAME, r_body = vector_body v k\<rparr> of
             None \<Rightarrow> Inl BackendError | Some hs \<Rightarrow> Inr hs))"
  "trace vector_search env q k =
     Encode q # (case encode env q of None \<Rightarrow> []
       | Some v \<Rightarrow> [Search \<lparr>r_index = INDEX_NAME, r_body = vector_body v k\<rparr>])"
  "reply hybrid_rrf_search env q k =
     (case encode env q of None \<Rightarrow> Inl EmbeddingError
      | Some v \<Rightarrow>
          (case search env \<lparr>r_index = INDEX_NAME, r_body = hybrid_rrf_body q v k\<rparr> of
             None \<Rightarrow> Inl BackendError | Some hs \<Rightarrow> Inr hs))"
  "trace hybrid_rrf_search env q k =
     Encode q # (case encode env q of None \<Rightarrow> []
       | Some v \<Rightarrow> [Search \<lparr>r_index = INDEX_NAME, r_body = hybrid_rrf_body q v k\<rparr>])"
  "reply full_pipeline_search env q k =
     (case encode env q of None \<Rightarrow> Inl EmbeddingError
      | Some v \<Rightarrow>
          (case search env \<lparr>r_index = INDEX_NAME, r_body = full_pipeline_body q v k\<rparr> of
             None \<Rightarrow> Inl BackendError | Some hs \<Rightarrow> Inr hs))"
  "trace full_pipeline_search env q k =
     Encode q # (case encode env q of None \<Rightarrow> []
       | Some v \<Rightarrow> [Search \<lparr>r_index = INDEX_NAME, r_body = full_pipeline_body q v k\<rparr>])"
  by (simp_all add: reply_def trace_def bm25_search_run vector_search_run
        hybrid_rrf_search_run full_pipeline_search_run fresh_def split: option.split)


lemma sample_facts:
  "search sample_env \<lparr>r_index = INDEX_NAME, r_body = bm25_body (ascii ''lego'') 3\<rparr>
     = Some (take 3 sample_hits)"
  "encode sample_env (ascii ''lego'') = Some [1 / 2, - 1 / 4, 0]"
  "search sample_env
     \<lparr>r_index = INDEX_NAME, r_body = vector_body [1 / 2, - 1 / 4, 0] 3\<rparr>
     = Some (take 3 sample_hits)"
  "search sample_env
     \<lparr>r_index = INDEX_NAME, r_body = hybrid_rrf_body (ascii ''lego'') [1 / 2, - 1 / 4, 0] 3\<rparr>
     = Some (take 3 sample_hits)"
  "search sample_env
     \<lparr>r_index = INDEX_NAME, r_body = full_pipeline_body (ascii ''lego'') [1 / 2, - 1 / 4, 0] 3\<rparr>
     = Some (take 3 sample_hits)"
  by (simp_all add: sample_env_def sample_backend_def body_sizes)


lemma page_header_run:
  "fst (page_header w) = Inr () \<and> calls (snd (page_header w)) = calls w"
  by (simp add: page_header_def io_bind_def st_def)

lemma sidebar_footer_run:
  "fst (sidebar_footer w) = Inr () \<and> calls (snd (sidebar_footer w)) = calls w"
  by (simp add: sidebar_footer_def io_bind_def st_def)

lemma run_page_empty_query:
  assumes "query inp = []"
  shows "fst (run_page env inp w) = Inr () \<and> calls (snd (run_page env inp w)) = calls w"
proof -
  obtain w1 where h: "page_header w = (Inr (), w1)" and c1: "calls w1 = calls w"
    using page_header_run [of w] by (cases "page_header w") auto
  have "run_page env inp w = sidebar_footer w1"
    using assms h by (simp add: run_page_def io_bind_def io_return_def)
  with sidebar_footer_run [of w1] c1 show ?thesis
    by simp
qed

named_theorems sends

lemma request_sizes_append: "request_sizes (xs @ ys) = request_sizes xs @ request_sizes ys"
  by (induction xs rule: request_sizes.induct) simp_all

lemma sends_only_silent:
  assumes "\<And>w. calls (snd (m w)) = calls w"
  shows "sends_only k m"
  unfolding sends_only_def
proof
  fix w
  show "\<exists>cs. calls (snd (m w)) = calls w @ cs \<and> list_all (\<lambda>s. s = k) (request_sizes cs)"
    by (rule exI [of _ "[]"]) (simp add: assms)
qed

lemma sends_only_return [sends]: "sends_only k (io_return x)"
  by (rule sends_only_silent) (simp add: io_return_def)

lemma sends_only_raise [sends]: "sends_only k (io_raise e)"
  by (rule sends_only_silent) (simp add: io_raise_def)

lemma sends_only_of [sends]: "sends_only k (io_of r)"
  by (rule sends_only_silent) (simp add: io_of_def)

lemma sends_only_st [sends]: "sends_only k (st c x)"
  by (rule sends_only_silent) (simp add: st_def)

lemma sends_only_time [sends]: "sends_only k (time_time env)"
  by (rule sends_only_silent) (simp add: time_time_def)

lemma sends_only_encode [sends]: "sends_only k (model_encode env q)"
  unfolding sends_only_def
proof
  fix w
  show "\<exists>cs. calls (snd (model_encode env q w)) = calls w @ cs
          \<and> list_all (\<lambda>s. s = k) (request_sizes cs)"
    by (rule exI [of _ "[Encode q]"]) (simp add: model_encode_def)
qed

lemma sends_only_search:
  assumes "b_size (r_body req) = k"
  shows "sends_only k (client_search env req)"
  unfolding sends_only_def
proof
  fix w
  show "\<exists>cs. calls (snd (client_search env req w)) = calls w @ cs
          \<and> list_all (\<lambda>s. s = k) (request_sizes cs)"
    by (rule exI [of _ "[Search req]"]) (simp add: client_search_def assms)
qed

lemma sends_only_bind_reached:
  assumes m: "sends_only k m"
    and f: "\<And>x w w'. m w = (Inr x, w') \<Longrightarrow> sends_only k (f x)"
  shows "sends_only k (io_bind m f)"
  unfolding sends_only_def
proof
  fix w
  obtain r w1 where run: "m w = (r, w1)"
    by (cases "m w")
  from m obtain cs where cs: "calls w1 = calls w @ cs" "list_all (\<lambda>s. s = k) (request_sizes cs)"
    unfolding sends_only_def using run by (metis snd_conv)
  show "\<exists>cs. calls (snd (io_bind m f w)) = calls w @ cs
          \<and> list_all (\<lambda>s. s = k) (request_sizes cs)"
  proof (cases r)
    case (Inl e)
    with run cs show ?thesis
      by (intro exI [of _ cs]) (simp add: io_bind_def)
  next
    case (Inr x)
    from f [of w x w1] run Inr have "sends_only k (f x)"
      by simp
    then obtain ds where ds: "calls (snd (f x w1)) = calls w1 @ ds"
        "list_all (\<lambda>s. s = k) (request_sizes ds)"
      unfolding sends_only_def by blast
    with run cs Inr show ?thesis
      by (intro exI [of _ "cs @ ds"]) (simp add: io_bind_def request_sizes_append)
  qed
qed

lemma sends_only_bind [sends]:
  assumes "sends_only k m" and "\<And>x. sends_only k (f x)"
  shows "sends_only k (io_bind m f)"
  using assms by (intro sends_only_bind_reached) simp_all

lemma sends_only_for_hits [sends]:
  assumes "\<And>i h. sends_only k (f i h)"
  shows "sends_only k (for_hits f i hs)"
  by (induction hs arbitrary: i) (simp_all add: sends assms)

lemma sends_only_bm25 [sends]: "sends_only k (bm25_search env q k)"
  unfolding bm25_search_def by (rule sends_only_search) (simp add: body_sizes)

lemma sends_only_vector [sends]: "sends_only k (vector_search env q k)"
  unfolding vector_search_def
  by (intro sends sends_only_search) (simp add: body_sizes)

lemma sends_only_hybrid [sends]: "sends_only k (hybrid_rrf_search env q k)"
  unfolding hybrid_rrf_search_def
  by (intro sends sends_only_search) (simp add: body_sizes)

lemma sends_only_pipeline [sends]: "sends_only k (full_pipeline_search env q k)"
  unfolding full_pipeline_search_def
  by (intro sends sends_only_search) (simp add: body_sizes)

lemma sends_only_compact [sends]: "sends_only k (compact_hit col i h)"
  unfolding compact_hit_def Let_def by (intro sends)

lemma sends_only_image [sends]: "sends_only k (image_cell env v)"
  by (cases v) (simp_all add: image_cell_def sends)

lemma sends_only_detailed [sends]: "sends_only k (detailed_hit env i h)"
  unfolding detailed_hit_def Let_def by (intro sends)

lemma sends_only_column:
  assumes "sends_only k (f env q k)"
  shows "sends_only k (column_block env col title f q k)"
  unfolding column_block_def by (intro sends assms)

lemma sends_only_comparison [sends]: "sends_only k (comparison_block env q k)"
  unfolding comparison_block_def by (intro sends sends_only_column)

lemma funcs_are_the_four:
  assumes "dict_item (map_of funcs) m = Inr f"
  shows "f = full_pipeline_search \<or> f = hybrid_rrf_search \<or> f = vector_search
       \<or> f = bm25_search"
  using assms
  by (auto simp: dict_item_def funcs_def split: option.splits if_splits)

lemma sends_only_single [sends]: "sends_only k (single_block env m q k)"
  unfolding single_block_def
proof (rule sends_only_bind, rule sends_only_time, rule sends_only_bind_reached,
    rule sends_only_of)
  fix start x w w'
  assume "io_of (dict_item (map_of funcs) m) w = (Inr x, w')"
  then have "dict_item (map_of funcs) m = Inr x"
    by (simp add: io_of_def)
  from funcs_are_the_four [OF this] have fx: "sends_only k (x env q k)"
    by (auto intro: sends)
  show "sends_only k
     (io_bind (x env q k) (\<lambda>results.
      io_bind (time_time env) (\<lambda>t.
      io_bind (st (ascii ''col1'') (Metric ([0x23F1, 0xFE0F] @ ascii '' Latency'')
                 (format_f 0 (float_mul env (float_sub env t start) 1000) @ ascii ''ms''))) (\<lambda>_.
      io_bind (st (ascii ''col2'') (Metric ([0x1F4CA] @ ascii '' Results'')
                 (str_of_int (int (length results))))) (\<lambda>_.
      io_bind (st (ascii ''col3'') (Metric ([0x1F527] @ ascii '' Method'') m)) (\<lambda>_.
      io_bind (st (ascii ''col4'') (Metric ([0x1F3AF] @ ascii '' Storage'')
                 (ascii ''BBQ int8''))) (\<lambda>_.
      io_bind (st (ascii ''main'') (Markdown (ascii ''---''))) (\<lambda>_.
      for_hits (detailed_hit env) 1 results))))))))"
    by (intro sends fx)
qed

lemma sends_only_page [sends]: "sends_only (num_results inp) (run_page env inp)"
  unfolding run_page_def page_header_def sidebar_footer_def
  by (intro sends) (simp add: sends)

lemma run_page_sizes:
  "list_all (\<lambda>s. s = num_results inp)
     (request_sizes (drop (length (calls w)) (calls (snd (run_page env inp w)))))"
proof -
  from sends_only_page [of inp env] obtain cs where
    "calls (snd (run_page env inp w)) = calls w @ cs"
    "list_all (\<lambda>s. s = num_results inp) (request_sizes cs)"
    unfolding sends_only_def by blast
  then show ?thesis
    by simp
qed

lemma sample_columns:
  "column_outcome bm25_search (ascii ''col1'') sample_env (ascii ''lego'') 3 = Inr ()"
  "column_outcome vector_search (ascii ''col2'') sample_env (ascii ''lego'') 3 = Inr ()"
  "column_outcome hybrid_rrf_search (ascii ''col3'') sample_env (ascii ''lego'') 3 = Inr ()"
  "column_outcome full_pipeline_search (ascii ''col4'') sample_env (ascii ''lego'') 3 = Inr ()"
  using sample_facts outage_facts(2)
  by (simp_all add: column_outcome_def replies_and_traces prints_ok_iff)

lemma sample_comparison_calls:
  "calls (snd (comparison_block sample_env (ascii ''lego'') 3 w)) = calls w @ [
     Search \<lparr>r_index = INDEX_NAME, r_body = bm25_body (ascii ''lego'') 3\<rparr>,
     Encode (ascii ''lego''),
     Search \<lparr>r_index = INDEX_NAME, r_body = vector_body [1 / 2, - 1 / 4, 0] 3\<rparr>,
     Encode (ascii ''lego''),
     Search \<lparr>r_index = INDEX_NAME,
             r_body = hybrid_rrf_body (ascii ''lego'') [1 / 2, - 1 / 4, 0] 3\<rparr>,
     Encode (ascii ''lego''),
     Search \<lparr>r_index = INDEX_NAME,
             r_body = full_pipeline_body (ascii ''lego'') [1 / 2, - 1 / 4, 0] 3\<rparr>]"
proof -
  from comparison_block_run [of sample_env "ascii ''lego''" 3 w] obtain w' where
    "snd (comparison_block sample_env (ascii ''lego'') 3 w) = w'"
    "calls w' = calls w @ trace bm25_search sample_env (ascii ''lego'') 3 @
       trace vector_search sample_env (ascii ''lego'') 3 @
       trace hybrid_rrf_search sample_env (ascii ''lego'') 3 @
       trace full_pipeline_search sample_env (ascii ''lego'') 3"
    by (auto simp: sample_columns)
  then show ?thesis
    using sample_facts(2) by (simp add: replies_and_traces)
qed

lemma run_page_comparison_calls:
  assumes "comparison_mode inp" and "query inp \<noteq> []"
  shows "calls (snd (run_page env inp w)) =
     calls (snd (comparison_block env (query inp) (num_results inp) (snd (page_header w))))"
proof -
  obtain w1 where h: "page_header w = (Inr (), w1)"
    using page_header_run [of w] by (cases "page_header w") auto
  obtain r w2 where c: "comparison_block env (query inp) (num_results inp) w1 = (r, w2)"
    by (cases "comparison_block env (query inp) (num_results inp) w1")
  show ?thesis
  proof (cases r)
    case (Inl e)
    with assms h c show ?thesis
      by (simp add: run_page_def io_bind_def)
  next
    case (Inr u)
    with assms h c sidebar_footer_run [of w2] show ?thesis
      by (simp add: run_page_def io_bind_def)
  qed
qed

text \<open>
  C3, amended. No search function checks its arguments: for every query, the empty one
  included, and every result count, zero and values above the slider's maximum included,
  the function sends its request and returns what the backend returns. Only the page
  keeps an empty query from the backend: with an empty text input no search runs, and the
  run ends without an error. Every request that a run of the page sends has the value of
  the slider as its size, so a size within 3 to 12 when the slider's value is.
\<close>

theorem searches_do_not_validate:
  "(search env \<lparr>r_index = INDEX_NAME, r_body = bm25_body q k\<rparr> = Some hits
      \<longrightarrow> bm25_search env q k w =
           (Inr hits, w\<lparr>calls := calls w @ [
              Search \<lparr>r_index = INDEX_NAME, r_body = bm25_body q k\<rparr>]\<rparr>))
   \<and> (encode env q = Some v
        \<and> search env \<lparr>r_index = INDEX_NAME, r_body = vector_body v k\<rparr> = Some hits
      \<longrightarrow> vector_search env q k w =
           (Inr hits, w\<lparr>calls := calls w @ [Encode q,
              Search \<lparr>r_index = INDEX_NAME, r_body = vector_body v k\<rparr>]\<rparr>))
   \<and> (encode env q = Some v
        \<and> search env \<lparr>r_index = INDEX_NAME, r_body = hybrid_rrf_body q v k\<rparr> = Some hits
      \<longrightarrow> hybrid_rrf_search env q k w =
           (Inr hits, w\<lparr>calls := calls w @ [Encode q,
              Search \<lparr>r_index = INDEX_NAME, r_body = hybrid_rrf_body q v k\<rparr>]\<rparr>))
   \<and> (encode env q = Some v
        \<and> search env \<lparr>r_index = INDEX_NAME, r_body = full_pipeline_body q v k\<rparr> = Some hits
      \<longrightarrow> full_pipeline_search env q k w =
           (Inr hits, w\<lparr>calls := calls w @ [Encode q,
              Search \<lparr>r_index = INDEX_NAME, r_body = full_pipeline_body q v k\<rparr>]\<rparr>))
   \<and> (query inp = []
      \<longrightarrow> fst (run_page env inp w) = Inr () \<and> calls (snd (run_page env inp w)) = calls w)
   \<and> list_all (\<lambda>s. s = num_results inp)
        (request_sizes (drop (length (calls w)) (calls (snd (run_page env inp w)))))
   \<and> (slider_range (num_results inp)
      \<longrightarrow> list_all slider_range
            (request_sizes (drop (length (calls w)) (calls (snd (run_page env inp w))))))"
proof -
  have sizes: "list_all (\<lambda>s. s = num_results inp)
        (request_sizes (drop (length (calls w)) (calls (snd (run_page env inp w)))))"
    by (rule run_page_sizes)
  have ranged: "slider_range (num_results inp)
      \<longrightarrow> list_all slider_range
            (request_sizes (drop (length (calls w)) (calls (snd (run_page env inp w)))))"
    using sizes by (auto simp: list_all_iff)
  from sizes ranged run_page_empty_query [of inp env w] show ?thesis
    by (simp add: bm25_search_run vector_search_run hybrid_rrf_search_run
          full_pipeline_search_run)
qed

text \<open>
  C3, as stated, fails: \<^verbatim>\<open>bm25_search("", 0)\<close> is sent to the backend and returns its
  (empty) answer as a success, and \<^verbatim>\<open>full_pipeline_search\<close> with a query of blanks and
  a result count of 1000 returns the four hits the backend has.
\<close>

theorem invalid_request_counterexample:
  "bm25_search sample_env [] 0 fresh =
     (Inr [], fresh\<lparr>calls := [Search \<lparr>r_index = INDEX_NAME, r_body = bm25_body [] 0\<rparr>]\<rparr>)
   \<and> map_sum id length (fst (full_pipeline_search sample_env (ascii ''   '') 1000 fresh))
       = Inr 4"
  by (simp add: bm25_search_run full_pipeline_search_run sample_env_def sample_backend_def
        body_sizes fresh_def sample_hits_def)

lemma sample_page_calls:
  "calls (snd (run_page sample_env \<lparr>comparison_mode = True,
       selected_method = ascii ''Full Pipeline'', num_results = 3,
       query = ascii ''lego''\<rparr> fresh)) = [
     Search \<lparr>r_index = INDEX_NAME, r_body = bm25_body (ascii ''lego'') 3\<rparr>,
     Encode (ascii ''lego''),
     Search \<lparr>r_index = INDEX_NAME, r_body = vector_body [1 / 2, - 1 / 4, 0] 3\<rparr>,
     Encode (ascii ''lego''),
     Search \<lparr>r_index = INDEX_NAME,
             r_body = hybrid_rrf_body (ascii ''lego'') [1 / 2, - 1 / 4, 0] 3\<rparr>,
     Encode (ascii ''lego''),
     Search \<lparr>r_index = INDEX_NAME,
             r_body = full_pipeline_body (ascii ''lego'') [1 / 2, - 1 / 4, 0] 3\<rparr>]"
proof -
  have "calls (snd (page_header fresh)) = []"
    using page_header_run [of fresh] by (simp add: fresh_def)
  then show ?thesis
    using run_page_comparison_calls [of "\<lparr>comparison_mode = True,
       selected_method = ascii ''Full Pipeline'', num_results = 3,
       query = ascii ''lego''\<rparr>" sample_env fresh]
      sample_comparison_calls [of "snd (page_header fresh)"]
    by (simp add: ascii_def)
qed

theorem searches_do_not_validate_witness:
  "search sample_env \<lparr>r_index = INDEX_NAME, r_body = bm25_body [] 0\<rparr> = Some []
   \<and> encode sample_env [] = Some [1 / 2, - 1 / 4, 0]
   \<and> search sample_env \<lparr>r_index = INDEX_NAME, r_body = vector_body [1 / 2, - 1 / 4, 0] 0\<rparr>
       = Some []
   \<and> search sample_env
       \<lparr>r_index = INDEX_NAME, r_body = hybrid_rrf_body [] [1 / 2, - 1 / 4, 0] 0\<rparr> = Some []
   \<and> search sample_env
       \<lparr>r_index = INDEX_NAME, r_body = full_pipeline_body [] [1 / 2, - 1 / 4, 0] 0\<rparr> = Some []
   \<and> query \<lparr>comparison_mode = True, selected_method = ascii ''Full Pipeline'',
              num_results = 5, query = []\<rparr> = []
   \<and> fst (bm25_search sample_env [] 0 fresh) = Inr []
   \<and> fst (vector_search sample_env [] 0 fresh) = Inr []
   \<and> fst (hybrid_rrf_search sample_env [] 0 fresh) = Inr []
   \<and> fst (full_pipeline_search sample_env [] 0 fresh) = Inr []
   \<and> fst (run_page sample_env \<lparr>comparison_mode = True, selected_method = ascii ''Full Pipeline'',
              num_results = 5, query = []\<rparr> fresh) = Inr ()
   \<and> calls (snd (run_page sample_env \<lparr>comparison_mode = True,
              selected_method = ascii ''Full Pipeline'', num_results = 5, query = []\<rparr> fresh))
       = []
   \<and> slider_range 3
   \<and> request_sizes (calls (snd (run_page sample_env \<lparr>comparison_mode = True,
         selected_method = ascii ''Full Pipeline'', num_results = 3,
         query = ascii ''lego''\<rparr> fresh))) = [3, 3, 3, 3]
   \<and> list_all slider_range
        (request_sizes (calls (snd (run_page sample_env \<lparr>comparison_mode = True,
           selected_method = ascii ''Full Pipeline'', num_results = 3,
           query = ascii ''lego''\<rparr> fresh))))"
proof -
  have h:
    "search sample_env \<lparr>r_index = INDEX_NAME, r_body = bm25_body [] 0\<rparr> = Some []"
    "encode sample_env [] = Some [1 / 2, - 1 / 4, 0]"
    "search sample_env \<lparr>r_index = INDEX_NAME, r_body = vector_body [1 / 2, - 1 / 4, 0] 0\<rparr>
       = Some []"
    "search sample_env
       \<lparr>r_index = INDEX_NAME, r_body = hybrid_rrf_body [] [1 / 2, - 1 / 4, 0] 0\<rparr> = Some []"
    "search sample_env
       \<lparr>r_index = INDEX_NAME, r_body = full_pipeline_body [] [1 / 2, - 1 / 4, 0] 0\<rparr> = Some []"
    by (simp_all add: sample_env_def sample_backend_def body_sizes)
  have first: "fst (bm25_search sample_env [] 0 fresh) = Inr []
   \<and> fst (vector_search sample_env [] 0 fresh) = Inr []
   \<and> fst (hybrid_rrf_search sample_env [] 0 fresh) = Inr []
   \<and> fst (full_pipeline_search sample_env [] 0 fresh) = Inr []
   \<and> fst (run_page sample_env \<lparr>comparison_mode = True, selected_method = ascii ''Full Pipeline'',
              num_results = 5, query = []\<rparr> fresh) = Inr ()
   \<and> calls (snd (run_page sample_env \<lparr>comparison_mode = True,
              selected_method = ascii ''Full Pipeline'', num_results = 5, query = []\<rparr> fresh))
       = []"
    using searches_do_not_validate [where env = sample_env and q = "[]" and k = 0
      and hits = "[]" and v = "[1 / 2, - 1 / 4, 0]" and w = fresh
      and inp = "\<lparr>comparison_mode = True, selected_method = ascii ''Full Pipeline'',
              num_results = 5, query = []\<rparr>"] h
    by (simp add: fresh_def)
  have r: "slider_range 3"
    by (simp add: slider_range_def)
  have sizes: "request_sizes (calls (snd (run_page sample_env \<lparr>comparison_mode = True,
         selected_method = ascii ''Full Pipeline'', num_results = 3,
         query = ascii ''lego''\<rparr> fresh))) = [3, 3, 3, 3]"
    by (simp add: sample_page_calls body_sizes)
  have second: "list_all slider_range
        (request_sizes (calls (snd (run_page sample_env \<lparr>comparison_mode = True,
           selected_method = ascii ''Full Pipeline'', num_results = 3,
           query = ascii ''lego''\<rparr> fresh))))"
    using searches_do_not_validate [where env = sample_env and w = fresh
      and inp = "\<lparr>comparison_mode = True, selected_method = ascii ''Full Pipeline'',
              num_results = 3, query = ascii ''lego''\<rparr>"] r
    by (simp add: fresh_def)
  from h first r sizes second show ?thesis
    by simp
qed

end
